theory Spec2Isabelle
  imports Complex_Main "HOL-Library.Multiset" "HOL-Library.Sublist"
begin

section \<open>Homelike storefront: the state engine of \<open>src/App.tsx\<close>\<close>

text \<open>
  The React component \<open>App\<close> keeps its state in \<open>useState\<close> cells and changes it in
  event handlers. Each handler is embedded as a function from the state before the
  event to the state after it. What a handler reads from the platform (the clock, the
  locale formatter, \<open>Number\<close>, \<open>JSON\<close>, \<open>localStorage\<close>) is a parameter.

  Conventions of the embedding:
  \<^item> a JavaScript string is a \<open>string\<close> of ASCII characters; \<open>trim\<close> and
    \<open>toLowerCase\<close> are modelled on ASCII;
  \<^item> an optional field (\<open>phone?: string\<close>) is an \<open>option\<close>, \<open>None\<close> for
    \<open>undefined\<close>;
  \<^item> prices, quantities and totals are integers (\<open>int\<close>) with exact arithmetic, as
    JavaScript numbers are for integers below \<open>2^53\<close>; the argument of
    \<open>handleQuantityChange\<close> is any JavaScript number (\<open>jsnumber\<close>);
  \<^item> the cart \<open>Record<string, number>\<close> is an association list with one pair for each
    own property of the object; a read \<open>quantities[id]\<close> that finds no own property goes
    on to the properties that every object inherits from \<open>Object.prototype\<close>.
\<close>

subsection \<open>Strings\<close>

definition isSpace :: "char \<Rightarrow> bool" where
  "isSpace c = (c \<in> set [CHR '' '', CHR 0x09, CHR 0x0A, CHR 0x0B, CHR 0x0C, CHR 0x0D])"

text \<open>\<open>String.prototype.trim\<close>: white space is removed at both ends.\<close>

definition trim :: "string \<Rightarrow> string" where
  "trim s = rev (dropWhile isSpace (rev (dropWhile isSpace s)))"

definition toLowerChar :: "char \<Rightarrow> char" where
  "toLowerChar c =
     (case map_of (zip ''ABCDEFGHIJKLMNOPQRSTUVWXYZ'' ''abcdefghijklmnopqrstuvwxyz'') c of
        Some d \<Rightarrow> d
      | None \<Rightarrow> c)"

definition toLowerCase :: "string \<Rightarrow> string" where
  "toLowerCase s = map toLowerChar s"

text \<open>\<open>Array.prototype.join\<close>.\<close>

fun join :: "string \<Rightarrow> string list \<Rightarrow> string" where
  "join sep [] = []"
| "join sep [x] = x"
| "join sep (x # y # ys) = x @ sep @ join sep (y # ys)"

text \<open>A template literal renders a non-negative integer in decimal: \<open>`${Date.now()}`\<close>.\<close>

definition digitChar :: "nat \<Rightarrow> char" where
  "digitChar d = ''0123456789'' ! d"

function decimal :: "nat \<Rightarrow> string" where
  "decimal n = (if n < 10 then [digitChar n] else decimal (n div 10) @ [digitChar (n mod 10)])"
  by pat_completeness auto
termination
  by (relation "measure id") auto

declare decimal.simps [simp del]

subsection \<open>JavaScript numbers\<close>

datatype jsnumber = Finite rat | NaN | PosInfinity | NegInfinity

text \<open>\<open>Number.isFinite\<close>.\<close>

fun isFinite :: "jsnumber \<Rightarrow> bool" where
  "isFinite (Finite _) = True"
| "isFinite _ = False"

subsection \<open>The catalog\<close>

datatype HeatLevel = Mild | Medium | Hot

record Spice =
  spice_id :: string
  spice_name :: string
  spice_description :: string
  spice_notes :: "string option"
  spice_price :: int
  spice_unit :: string
  spice_heat :: HeatLevel
  spice_origin :: "string option"
  spice_isNew :: "bool option"
  spice_isSignature :: "bool option"
  spice_colorClass :: string
  spice_imageDataUrl :: "string option"

subsection \<open>The cart\<close>

type_synonym cart = "(string \<times> int) list"

text \<open>\<open>const { [spiceId]: _removed, ...rest } = prev\<close>: the object without the key.\<close>

definition omitKey :: "string \<Rightarrow> cart \<Rightarrow> cart" where
  "omitKey k c = filter (\<lambda>e. fst e \<noteq> k) c"

text \<open>
  \<open>{ ...prev, [spiceId]: safe }\<close>: an own property keeps its place and takes the new
  value, a new property is added at the end.
\<close>

fun assignKey :: "string \<Rightarrow> int \<Rightarrow> cart \<Rightarrow> cart" where
  "assignKey k v [] = [(k, v)]"
| "assignKey k v (e # c) = (if fst e = k then (k, v) # c else e # assignKey k v c)"

text \<open>
  The property names that a plain object inherits from \<open>Object.prototype\<close>. A read of
  one of them on a cart without an own entry for it gives a function (the object
  \<open>Object.prototype\<close> itself for \<open>__proto__\<close>), not \<open>undefined\<close>.
\<close>

definition objectPrototypeKeys :: "string list" where
  "objectPrototypeKeys =
     [''constructor'', ''hasOwnProperty'', ''isPrototypeOf'', ''propertyIsEnumerable'',
      ''toLocaleString'', ''toString'', ''valueOf'', ''__proto__'', ''__defineGetter__'',
      ''__defineSetter__'', ''__lookupGetter__'', ''__lookupSetter__'']"

text \<open>
  The value of \<open>quantities[id] ?? 0\<close>: the number of the own entry, else the inherited
  value when the key names one, else 0.
\<close>

datatype lookup = QNum int | QInherited

definition qtyOf :: "cart \<Rightarrow> string \<Rightarrow> lookup" where
  "qtyOf c k =
     (case map_of c k of
        Some q \<Rightarrow> QNum q
      | None \<Rightarrow> if k \<in> set objectPrototypeKeys then QInherited else QNum 0)"

text \<open>\<open>qty > 0\<close>: an inherited function or object converts to \<open>NaN\<close>, which compares false.\<close>

fun positive :: "lookup \<Rightarrow> bool" where
  "positive (QNum q) = (q > 0)"
| "positive QInherited = False"

text \<open>
  Arithmetic that can give \<open>NaN\<close>, written \<open>None\<close>: \<open>price * qty\<close> is \<open>NaN\<close> for an
  inherited value, and a sum with \<open>NaN\<close> is \<open>NaN\<close>.
\<close>

fun timesQty :: "int \<Rightarrow> lookup \<Rightarrow> int option" where
  "timesQty p (QNum q) = Some (p * q)"
| "timesQty p QInherited = None"

fun plusNumber :: "int option \<Rightarrow> int option \<Rightarrow> int option" where
  "plusNumber (Some a) (Some b) = Some (a + b)"
| "plusNumber _ _ = None"

text \<open>
  The quantity of the cart's own entry for a key, 0 without one, and the keys for which
  a read falls through to an inherited property. Both serve the statements and proofs;
  the code has neither.
\<close>

definition ownQty :: "cart \<Rightarrow> string \<Rightarrow> int" where
  "ownQty c k = (case map_of c k of Some q \<Rightarrow> q | None \<Rightarrow> 0)"

definition inheritedKey :: "cart \<Rightarrow> string \<Rightarrow> bool" where
  "inheritedKey c k \<longleftrightarrow> map_of c k = None \<and> k \<in> set objectPrototypeKeys"

text \<open>
  \<open>Number.isFinite(value) ? Math.max(0, Math.floor(value)) : 0\<close>. The floor of a finite
  number is an integer, so \<open>safe\<close> is an \<open>int\<close>.
\<close>

fun safeQuantity :: "jsnumber \<Rightarrow> int" where
  "safeQuantity (Finite x) = max 0 \<lfloor>x\<rfloor>"
| "safeQuantity _ = 0"

definition handleQuantityChange :: "string \<Rightarrow> jsnumber \<Rightarrow> cart \<Rightarrow> cart" where
  "handleQuantityChange spiceId val prev =
     (let safe = safeQuantity val
      in if safe \<le> 0 then omitKey spiceId prev else assignKey spiceId safe prev)"

text \<open>
  \<open>spices.reduce((sum, spice) => sum + spice.price * (quantities[spice.id] ?? 0), 0)\<close>;
  the result \<open>None\<close> is \<open>NaN\<close>.
\<close>

definition estimatedTotal :: "Spice list \<Rightarrow> cart \<Rightarrow> int option" where
  "estimatedTotal spices quantities =
     fold (\<lambda>spice sum. plusNumber sum (timesQty (spice_price spice)
                                         (qtyOf quantities (spice_id spice))))
       spices (Some 0)"

text \<open>\<open>Object.values(quantities).some((q) => q > 0)\<close>.\<close>

definition hasSelection :: "cart \<Rightarrow> bool" where
  "hasSelection quantities = list_ex (\<lambda>q. q > 0) (map snd quantities)"

text \<open>A sequence of quantity changes, applied from left to right.\<close>

definition applyChanges :: "(string \<times> jsnumber) list \<Rightarrow> cart \<Rightarrow> cart" where
  "applyChanges calls c = fold (\<lambda>(k, v) acc. handleQuantityChange k v acc) calls c"



subsection \<open>Optional strings\<close>

text \<open>\<open>if (x)\<close> for \<open>x: string | undefined\<close>: \<open>undefined\<close> and the empty string are falsy.\<close>

fun truthy :: "string option \<Rightarrow> bool" where
  "truthy None = False"
| "truthy (Some s) = (s \<noteq> [])"

text \<open>\<open>s || undefined\<close>.\<close>

definition orUndefined :: "string \<Rightarrow> string option" where
  "orUndefined s = (if s = [] then None else Some s)"

text \<open>\<open>x ?? ""\<close>.\<close>

fun orEmpty :: "string option \<Rightarrow> string" where
  "orEmpty None = []"
| "orEmpty (Some s) = s"

text \<open>A template literal renders an integer quantity: \<open>`x${item.quantity}`\<close>.\<close>

definition showInt :: "int \<Rightarrow> string" where
  "showInt i = (if i < 0 then ''-'' @ decimal (nat (- i)) else decimal (nat i))"

subsection \<open>Profiles, orders, settings\<close>

datatype PaymentMethod = UPI | CashOnDelivery | Card

fun paymentText :: "PaymentMethod \<Rightarrow> string" where
  "paymentText UPI = ''UPI''"
| "paymentText CashOnDelivery = ''Cash on Delivery''"
| "paymentText Card = ''Card''"

record AdminConfig =
  adminEmail :: string
  brandTagline :: string
  supportPhone :: "string option"
  upiId :: "string option"
  admin_city :: "string option"
  minimumOrderNote :: "string option"

record User =
  user_id :: string
  user_name :: string
  user_email :: string
  user_phone :: "string option"
  user_address :: "string option"
  user_city :: "string option"
  user_postalCode :: "string option"

record OrderItem =
  item_spiceId :: string
  item_name :: string
  item_quantity :: int
  item_unitPrice :: int
  item_subtotal :: int

record Order =
  order_id :: string
  createdAt :: string
  customerName :: string
  customerEmail :: string
  customerPhone :: "string option"
  customerAddress :: "string option"
  customerCity :: "string option"
  customerPostalCode :: "string option"
  order_note :: "string option"
  order_paymentMethod :: PaymentMethod
  order_items :: "OrderItem list"
  order_total :: int
  order_userId :: "string option"

subsection \<open>Composing an order and its receipt (the pure parts of \<open>handlePlaceOrder\<close>)\<close>

text \<open>
  \<open>spices.map((spice) => ({ spice, qty: quantities[spice.id] ?? 0 })).filter((x) => x.qty > 0)\<close>:
  only a number above 0 passes the filter, so every pair that is left carries a number,
  as the declared type \<open>{ spice: Spice; qty: number }[]\<close> says.
\<close>

definition selected :: "Spice list \<Rightarrow> cart \<Rightarrow> (Spice \<times> int) list" where
  "selected catalog quantities =
     List.map_filter
       (\<lambda>spice. case qtyOf quantities (spice_id spice) of
                  QNum qty \<Rightarrow> if qty > 0 then Some (spice, qty) else None
                | QInherited \<Rightarrow> None)
       catalog"

definition orderItems :: "(Spice \<times> int) list \<Rightarrow> OrderItem list" where
  "orderItems sel =
     map (\<lambda>(spice, qty).
            \<lparr>item_spiceId = spice_id spice, item_name = spice_name spice, item_quantity = qty,
             item_unitPrice = spice_price spice, item_subtotal = spice_price spice * qty\<rparr>) sel"

text \<open>\<open>items.reduce((sum, item) => sum + item.subtotal, 0)\<close>.\<close>

definition itemsTotal :: "OrderItem list \<Rightarrow> int" where
  "itemsTotal items = fold (\<lambda>item sum. sum + item_subtotal item) items 0"

text \<open>
  The receipt. \<open>fmt\<close> is \<open>formatINR\<close>, the locale formatter of the platform
  (\<open>toLocaleString("en-IN", ...)\<close>).
\<close>

definition lineItemsText :: "(int \<Rightarrow> string) \<Rightarrow> OrderItem list \<Rightarrow> string" where
  "lineItemsText fmt items =
     join [CHR 0x0A]
       (map (\<lambda>item. ''- '' @ item_name item @ '' x'' @ showInt (item_quantity item) @ '' @ ''
                     @ fmt (item_unitPrice item) @ '' = '' @ fmt (item_subtotal item)) items)"

definition addressLines :: "Order \<Rightarrow> string list" where
  "addressLines order =
     (if truthy (customerAddress order) then [orEmpty (customerAddress order)] else []) @
     (if truthy (customerCity order) \<or> truthy (customerPostalCode order)
      then [trim (orEmpty (customerCity order) @ '' '' @ orEmpty (customerPostalCode order))]
      else [])"

definition bodyLines :: "(int \<Rightarrow> string) \<Rightarrow> Order \<Rightarrow> string list" where
  "bodyLines fmt order =
     [''New Homelike order: '' @ order_id order,
      [],
      ''Customer: '' @ customerName order,
      ''Email: '' @ customerEmail order] @
     (if truthy (customerPhone order) then [''Phone: '' @ orEmpty (customerPhone order)] else []) @
     (if addressLines order \<noteq> []
      then [''Address: '' @ join '', '' (addressLines order)] else []) @
     [[], ''Items:'', lineItemsText fmt (order_items order), []] @
     [''Total: '' @ fmt (order_total order)] @
     [''Payment method: '' @ paymentText (order_paymentMethod order)] @
     (if truthy (order_note order)
      then [[], ''Customer note: '' @ orEmpty (order_note order)] else []) @
     [[], ''This order was placed from the Homelike startup site.'']"

text \<open>
  The words of the specification for the address line: the non-empty parts street, city
  and postal code, joined with a comma and a space.
\<close>

definition specAddressLine :: "Order \<Rightarrow> string" where
  "specAddressLine order =
     join '', '' (filter (\<lambda>part. part \<noteq> [])
       [orEmpty (customerAddress order), orEmpty (customerCity order),
        orEmpty (customerPostalCode order)])"

subsection \<open>Identifiers of new products\<close>

definition isSlugChar :: "char \<Rightarrow> bool" where
  "isSlugChar c = (c \<in> set ''abcdefghijklmnopqrstuvwxyz0123456789'')"

text \<open>\<open>.replace(/[^a-z0-9]+/g, "-")\<close>: every maximal run of other characters becomes one hyphen.\<close>

function hyphenate :: "string \<Rightarrow> string" where
  "hyphenate [] = []"
| "hyphenate (c # cs) =
     (if isSlugChar c then c # hyphenate cs
      else CHR ''-'' # hyphenate (dropWhile (\<lambda>d. \<not> isSlugChar d) cs))"
  by pat_completeness auto
termination
  by (relation "measure length") (auto simp: le_imp_less_Suc length_dropWhile_le)

text \<open>
  \<open>.replace(/(^-|-$)+/g, "")\<close>: \<open>^-\<close> matches only the first character and \<open>-$\<close> only the
  last one, so a hyphen in first place and a hyphen in last place are removed.
\<close>

definition stripHyphens :: "string \<Rightarrow> string" where
  "stripHyphens s =
     (let s1 = (if s \<noteq> [] \<and> hd s = CHR ''-'' then tl s else s)
      in if s1 \<noteq> [] \<and> last s1 = CHR ''-'' then butlast s1 else s1)"

definition baseId :: "string \<Rightarrow> string" where
  "baseId name = stripHyphens (hyphenate (toLowerCase name))"

text \<open>
  \<open>Math.round\<close> of a finite number rounds halves up. \<open>handleCreateSpice\<close> rounds finite
  numbers only.
\<close>

fun mathRound :: "jsnumber \<Rightarrow> int" where
  "mathRound (Finite x) = \<lfloor>x + 1 / 2\<rfloor>"
| "mathRound _ = 0"

text \<open>\<open>priceNumber <= 0\<close>; a comparison with \<open>NaN\<close> is false.\<close>

fun leZero :: "jsnumber \<Rightarrow> bool" where
  "leZero (Finite x) = (x \<le> 0)"
| "leZero NegInfinity = True"
| "leZero _ = False"

subsection \<open>The state of the component\<close>

record NewSpice =
  draft_name :: string
  draft_description :: string
  draft_price :: string
  draft_unit :: string
  draft_heat :: HeatLevel
  draft_origin :: string
  draft_notes :: string
  draft_imageDataUrl :: "string option"
  draft_isSignature :: bool

datatype AdminTab = TabSettings | TabCatalog | TabOrders

record AppState =
  adminConfig :: AdminConfig
  spices :: "Spice list"
  users :: "User list"
  currentUserId :: "string option"
  orders :: "Order list"
  initialized :: bool
  quantities :: cart
  paymentMethod :: PaymentMethod
  orderName :: string
  orderEmail :: string
  orderPhone :: string
  orderAddress :: string
  orderCity :: string
  orderPostalCode :: string
  orderNote :: string
  orderStatus :: "string option"
  orderError :: "string option"
  profileStatus :: "string option"
  adminMessage :: "string option"
  adminTab :: AdminTab
  newSpice :: NewSpice

text \<open>
  What \<open>handlePlaceOrder\<close> reads from the platform: \<open>Date.now()\<close>,
  \<open>new Date().toISOString()\<close>, whether \<open>window\<close> is defined, and the locale formatter
  behind \<open>formatINR\<close>.
\<close>

record Env =
  now :: nat
  isoNow :: string
  hasWindow :: bool
  formatINR :: "int \<Rightarrow> string"

text \<open>
  The hand-off to the mail composer: the three parts of the \<open>mailto:\<close> address that is
  assigned to \<open>window.location.href\<close>, before \<open>encodeURIComponent\<close>.
\<close>

record Mailto =
  mail_to :: string
  mail_subject :: string
  mail_body :: string

definition msgMissingContact :: string where
  "msgMissingContact = ''Please add your name and email so we can confirm your order.''"

definition msgEmptyCart :: string where
  "msgEmptyCart = ''Add at least one spice to your order.''"

definition msgDrafted :: string where
  "msgDrafted = ''Order drafted. Your email app should open with a ready to send order email to the Homelike admin.''"

definition msgSavedLocally :: string where
  "msgSavedLocally = ''Order saved in the local admin panel. Add an admin email in the Admin Panel to enable one click email sending.''"

text \<open>The \<open>Order\<close> literal of \<open>handlePlaceOrder\<close>.\<close>

definition makeOrder :: "Env \<Rightarrow> AppState \<Rightarrow> OrderItem list \<Rightarrow> int \<Rightarrow> Order" where
  "makeOrder env st items total' =
     \<lparr>order_id = ''HL-'' @ decimal (now env),
      createdAt = isoNow env,
      customerName = trim (orderName st),
      customerEmail = trim (orderEmail st),
      customerPhone = orUndefined (trim (orderPhone st)),
      customerAddress = orUndefined (trim (orderAddress st)),
      customerCity = orUndefined (trim (orderCity st)),
      customerPostalCode = orUndefined (trim (orderPostalCode st)),
      order_note = orUndefined (trim (orderNote st)),
      order_paymentMethod = paymentMethod st,
      order_items = items,
      order_total = total',
      order_userId = currentUserId st\<rparr>"

text \<open>
  \<open>handlePlaceOrder\<close>: the state after the submission and the mail that was handed off,
  if one was.
\<close>

definition handlePlaceOrder :: "Env \<Rightarrow> AppState \<Rightarrow> AppState \<times> Mailto option" where
  "handlePlaceOrder env st0 =
     (let st = st0\<lparr>orderError := None, orderStatus := None\<rparr>
      in if trim (orderName st) = [] \<or> trim (orderEmail st) = []
         then (st\<lparr>orderError := Some msgMissingContact\<rparr>, None)
         else
           let sel = selected (spices st) (quantities st)
           in if length sel = 0
              then (st\<lparr>orderError := Some msgEmptyCart\<rparr>, None)
              else
                let items = orderItems sel;
                    total' = itemsTotal items;
                    order = makeOrder env st items total';
                    st1 = st\<lparr>orders := orders st @ [order]\<rparr>;
                    emailBody = join [CHR 0x0A] (bodyLines (formatINR env) order);
                    trimmedAdminEmail = trim (adminEmail (adminConfig st))
                in if trimmedAdminEmail \<noteq> [] \<and> hasWindow env
                   then (st1\<lparr>orderStatus := Some msgDrafted, quantities := [], orderNote := []\<rparr>,
                         Some \<lparr>mail_to = trimmedAdminEmail,
                               mail_subject = ''New Homelike order '' @ order_id order,
                               mail_body = emailBody\<rparr>)
                   else (st1\<lparr>orderStatus := Some msgSavedLocally, quantities := [],
                             orderNote := []\<rparr>, None))"

text \<open>
  The test of \<open>users.find\<close> in \<open>handleSaveProfile\<close>:
  \<open>u.email.toLowerCase() === orderEmail.trim().toLowerCase()\<close>.
\<close>

definition sameEmail :: "string \<Rightarrow> User \<Rightarrow> bool" where
  "sameEmail email u = (toLowerCase (user_email u) = toLowerCase (trim email))"

text \<open>The \<open>User\<close> literal \<open>base\<close> of \<open>handleSaveProfile\<close>.\<close>

definition makeUser :: "string \<Rightarrow> AppState \<Rightarrow> User" where
  "makeUser ident st =
     \<lparr>user_id = ident,
      user_name = trim (orderName st),
      user_email = trim (orderEmail st),
      user_phone = orUndefined (trim (orderPhone st)),
      user_address = orUndefined (trim (orderAddress st)),
      user_city = orUndefined (trim (orderCity st)),
      user_postalCode = orUndefined (trim (orderPostalCode st))\<rparr>"

text \<open>\<open>handleSaveProfile\<close>; \<open>t\<close> is \<open>Date.now()\<close>.\<close>

definition handleSaveProfile :: "nat \<Rightarrow> AppState \<Rightarrow> AppState" where
  "handleSaveProfile t st0 =
     (let st = st0\<lparr>profileStatus := None\<rparr>
      in if trim (orderName st) = [] \<or> trim (orderEmail st) = []
         then st\<lparr>profileStatus := Some ''Add at least name and email before saving as a profile.''\<rparr>
         else
           let existing = find (sameEmail (orderEmail st)) (users st);
               base = makeUser (case existing of Some e \<Rightarrow> user_id e
                                | None \<Rightarrow> ''user-'' @ decimal t) st
           in case existing of
                Some e \<Rightarrow>
                  st\<lparr>users := map (\<lambda>u. if user_id u = user_id e then base else u) (users st),
                     currentUserId := Some (user_id e),
                     profileStatus := Some ''Updated your saved profile.''\<rparr>
              | None \<Rightarrow>
                  st\<lparr>users := users st @ [base],
                     currentUserId := Some (user_id base),
                     profileStatus := Some ''Saved a new profile in this browser.''\<rparr>)"

text \<open>
  The data model of the profile store: identifiers are unique, and there is at most one
  profile for an e-mail up to case.
\<close>

definition profilesOk :: "User list \<Rightarrow> bool" where
  "profilesOk us \<longleftrightarrow>
     distinct (map user_id us) \<and> distinct (map (\<lambda>u. toLowerCase (user_email u)) us)"

text \<open>The empty form that \<open>handleCreateSpice\<close> leaves behind.\<close>

definition blankNewSpice :: NewSpice where
  "blankNewSpice =
     \<lparr>draft_name = [], draft_description = [], draft_price = [], draft_unit = ''100g'',
      draft_heat = Medium, draft_origin = [], draft_notes = [], draft_imageDataUrl = None,
      draft_isSignature = False\<rparr>"

text \<open>
  \<open>handleCreateSpice\<close>. \<open>toNumber\<close> is \<open>Number\<close> on the text of the price field; the
  handler reads the clock in two places, \<open>tFallback\<close> for the placeholder identifier and
  \<open>tSuffix\<close> for the suffix.
\<close>

definition handleCreateSpice ::
    "(string \<Rightarrow> jsnumber) \<Rightarrow> nat \<Rightarrow> nat \<Rightarrow> AppState \<Rightarrow> AppState" where
  "handleCreateSpice toNumber tFallback tSuffix st0 =
     (let st = st0\<lparr>adminMessage := None\<rparr>
      in if trim (draft_name (newSpice st)) = []
         then st\<lparr>adminMessage := Some ''Give your spice a name before adding it.''\<rparr>
         else
           let priceNumber = toNumber (draft_price (newSpice st))
           in if \<not> isFinite priceNumber \<or> leZero priceNumber
              then st\<lparr>adminMessage := Some ''Enter a valid price in INR.''\<rparr>
              else
                let base = baseId (draft_name (newSpice st));
                    candidateId = (if base = [] then ''spice-'' @ decimal tFallback else base);
                    ident = (if list_ex (\<lambda>s. spice_id s = candidateId) (spices st)
                             then candidateId @ ''-'' @ decimal tSuffix else candidateId);
                    created =
                      \<lparr>spice_id = ident,
                       spice_name = trim (draft_name (newSpice st)),
                       spice_description =
                         (if trim (draft_description (newSpice st)) = []
                          then ''Custom Homelike blend.''
                          else trim (draft_description (newSpice st))),
                       spice_notes = orUndefined (trim (draft_notes (newSpice st))),
                       spice_price = mathRound priceNumber,
                       spice_unit =
                         (if trim (draft_unit (newSpice st)) = [] then ''100g''
                          else trim (draft_unit (newSpice st))),
                       spice_heat = draft_heat (newSpice st),
                       spice_origin = orUndefined (trim (draft_origin (newSpice st))),
                       spice_isNew = Some True,
                       spice_isSignature = Some (draft_isSignature (newSpice st)),
                       spice_colorClass = ''from-amber-500 via-orange-500 to-rose-500'',
                       spice_imageDataUrl = draft_imageDataUrl (newSpice st)\<rparr>
                in st\<lparr>spices := spices st @ [created],
                      newSpice := blankNewSpice,
                      adminMessage :=
                        Some (''Added '' @ [CHR 0x22] @ spice_name created @ [CHR 0x22]
                              @ '' to your Homelike catalog.'')\<rparr>)"

text \<open>
  The order that \<open>handlePlaceOrder\<close> builds when it gets past its two checks, and the
  outcome of a submission: it is accepted when the handler leaves no error message.
\<close>

definition placedOrder :: "Env \<Rightarrow> AppState \<Rightarrow> Order" where
  "placedOrder env st =
     makeOrder env st (orderItems (selected (spices st) (quantities st)))
       (itemsTotal (orderItems (selected (spices st) (quantities st))))"

definition accepted :: "Env \<Rightarrow> AppState \<Rightarrow> bool" where
  "accepted env st = (orderError (fst (handlePlaceOrder env st)) = None)"

subsection \<open>Initial values\<close>

definition defaultAdminConfig :: AdminConfig where
  "defaultAdminConfig =
     \<lparr>adminEmail = [],
      brandTagline = ''Small batch homestyle masalas for modern kitchens.'',
      supportPhone = Some [],
      upiId = Some [],
      admin_city = Some [],
      minimumOrderNote = Some ''Free delivery in your city for orders above INR 400.''\<rparr>"

definition defaultSpices :: "Spice list" where
  "defaultSpices =
     [\<lparr>spice_id = ''signature-garam-masala'',
       spice_name = ''Signature Garam Masala'',
       spice_description = ''Slow roasted whole spices, ground in tiny batches for a deep, homelike base to every curry.'',
       spice_notes = Some ''Add at the end of cooking for the best aroma.'',
       spice_price = 289,
       spice_unit = ''100g jar'',
       spice_heat = Medium,
       spice_origin = Some ''Family recipe developed in a small home kitchen.'',
       spice_isNew = Some True,
       spice_isSignature = Some True,
       spice_colorClass = ''from-amber-500 via-orange-500 to-rose-500'',
       spice_imageDataUrl = None\<rparr>,
      \<lparr>spice_id = ''chai-masala'',
       spice_name = ''Sunday Chai Masala'',
       spice_description = ''Cardamom forward chai blend with ginger, cinnamon and clove for slow evenings and long calls.'',
       spice_notes = Some ''Simmer with milk and tea leaves for 3-4 minutes.'',
       spice_price = 249,
       spice_unit = ''75g tin'',
       spice_heat = Mild,
       spice_origin = Some ''Inspired by weekend breakfasts at home.'',
       spice_isNew = None,
       spice_isSignature = None,
       spice_colorClass = ''from-orange-400 via-amber-500 to-amber-600'',
       spice_imageDataUrl = None\<rparr>,
      \<lparr>spice_id = ''everyday-sabzi'',
       spice_name = ''Everyday Sabzi Blend'',
       spice_description = ''Balanced turmeric, cumin and coriander with a bright tomato note - an easy base for daily sabzis.'',
       spice_notes = Some ''Great for bhindi, aloo, paneer and mixed vegetables.'',
       spice_price = 199,
       spice_unit = ''100g pouch'',
       spice_heat = Mild,
       spice_origin = Some ''Designed for quick weekday cooking.'',
       spice_isNew = None,
       spice_isSignature = None,
       spice_colorClass = ''from-amber-400 via-lime-400 to-emerald-500'',
       spice_imageDataUrl = None\<rparr>,
      \<lparr>spice_id = ''tadka-chilli-oil'',
       spice_name = ''Flame Tadka Chilli Oil'',
       spice_description = ''Crispy chilli, garlic and mustard seeds infused in cold pressed oil - instant tadka for dal or eggs.'',
       spice_notes = Some ''Use a small spoon at a time. It is hot.'',
       spice_price = 320,
       spice_unit = ''150ml bottle'',
       spice_heat = Hot,
       spice_origin = Some ''Tested over many breakfasts before launch.'',
       spice_isNew = None,
       spice_isSignature = None,
       spice_colorClass = ''from-rose-500 via-orange-500 to-amber-500'',
       spice_imageDataUrl = None\<rparr>]"

text \<open>The arguments of the \<open>useState\<close> calls.\<close>

definition initialState :: AppState where
  "initialState =
     \<lparr>adminConfig = defaultAdminConfig, spices = defaultSpices, users = [],
      currentUserId = None, orders = [], initialized = False, quantities = [],
      paymentMethod = UPI, orderName = [], orderEmail = [], orderPhone = [],
      orderAddress = [], orderCity = [], orderPostalCode = [], orderNote = [],
      orderStatus = None, orderError = None, profileStatus = None, adminMessage = None,
      adminTab = TabSettings, newSpice = blankNewSpice\<rparr>"

subsection \<open>Persistence\<close>

text \<open>
  \<open>localStorage\<close> maps keys to texts. \<open>JSON.stringify\<close> and \<open>JSON.parse\<close> belong to the
  platform and are parameters, one pair for each of the four stores. A parse throws
  (\<open>SyntaxError\<close>), or gives a value that fails the test the code makes on it
  (\<open>Array.isArray\<close>, \<open>typeof parsed === "object"\<close>), or gives a value that passes it, which
  the code then takes for what the cast says.
\<close>

type_synonym storage = "string \<rightharpoonup> string"

definition keyAdmin :: string where
  "keyAdmin = ''homelike_admin_v1''"

definition keySpices :: string where
  "keySpices = ''homelike_spices_v1''"

definition keyUsers :: string where
  "keyUsers = ''homelike_users_v1''"

definition keyOrders :: string where
  "keyOrders = ''homelike_orders_v1''"

datatype 'a parsed = SyntaxError | OtherValue | Parsed 'a

text \<open>The own properties of a parsed settings object.\<close>

record AdminPatch =
  patch_adminEmail :: "string option"
  patch_brandTagline :: "string option"
  patch_supportPhone :: "string option"
  patch_upiId :: "string option"
  patch_city :: "string option"
  patch_minimumOrderNote :: "string option"

record Json =
  stringifyAdmin :: "AdminConfig \<Rightarrow> string"
  stringifySpices :: "Spice list \<Rightarrow> string"
  stringifyUsers :: "User list \<Rightarrow> string"
  stringifyOrders :: "Order list \<Rightarrow> string"
  parseAdmin :: "string \<Rightarrow> AdminPatch parsed"
  parseSpices :: "string \<Rightarrow> Spice list parsed"
  parseUsers :: "string \<Rightarrow> User list parsed"
  parseOrders :: "string \<Rightarrow> Order list parsed"

text \<open>\<open>{ ...defaultAdminConfig, ...parsed }\<close>: a property of \<open>parsed\<close> wins over the default.\<close>

definition mergeAdmin :: "AdminConfig \<Rightarrow> AdminPatch \<Rightarrow> AdminConfig" where
  "mergeAdmin d p =
     \<lparr>adminEmail = (case patch_adminEmail p of Some v \<Rightarrow> v | None \<Rightarrow> adminEmail d),
      brandTagline = (case patch_brandTagline p of Some v \<Rightarrow> v | None \<Rightarrow> brandTagline d),
      supportPhone = (case patch_supportPhone p of Some v \<Rightarrow> Some v | None \<Rightarrow> supportPhone d),
      upiId = (case patch_upiId p of Some v \<Rightarrow> Some v | None \<Rightarrow> upiId d),
      admin_city = (case patch_city p of Some v \<Rightarrow> Some v | None \<Rightarrow> admin_city d),
      minimumOrderNote =
        (case patch_minimumOrderNote p of Some v \<Rightarrow> Some v | None \<Rightarrow> minimumOrderNote d)\<rparr>"

text \<open>
  The load effect, one store after the other inside one \<open>try\<close>: \<open>None\<close> is a thrown
  exception, which skips the stores that follow.
\<close>

definition loadAdmin :: "Json \<Rightarrow> storage \<Rightarrow> AppState \<Rightarrow> AppState option" where
  "loadAdmin json sto st =
     (case sto keyAdmin of
        None \<Rightarrow> Some st
      | Some storedAdmin \<Rightarrow>
          if storedAdmin = [] then Some st
          else (case parseAdmin json storedAdmin of
                  SyntaxError \<Rightarrow> None
                | OtherValue \<Rightarrow> Some st
                | Parsed p \<Rightarrow> Some (st\<lparr>adminConfig := mergeAdmin defaultAdminConfig p\<rparr>)))"

definition loadSpices :: "Json \<Rightarrow> storage \<Rightarrow> AppState \<Rightarrow> AppState option" where
  "loadSpices json sto st =
     (case sto keySpices of
        None \<Rightarrow> Some st
      | Some storedSpices \<Rightarrow>
          if storedSpices = [] then Some st
          else (case parseSpices json storedSpices of
                  SyntaxError \<Rightarrow> None
                | OtherValue \<Rightarrow> Some st
                | Parsed xs \<Rightarrow> Some (if length xs > 0 then st\<lparr>spices := xs\<rparr> else st)))"

definition loadUsers :: "Json \<Rightarrow> storage \<Rightarrow> AppState \<Rightarrow> AppState option" where
  "loadUsers json sto st =
     (case sto keyUsers of
        None \<Rightarrow> Some st
      | Some storedUsers \<Rightarrow>
          if storedUsers = [] then Some st
          else (case parseUsers json storedUsers of
                  SyntaxError \<Rightarrow> None
                | OtherValue \<Rightarrow> Some st
                | Parsed xs \<Rightarrow> Some (st\<lparr>users := xs\<rparr>)))"

definition loadOrders :: "Json \<Rightarrow> storage \<Rightarrow> AppState \<Rightarrow> AppState option" where
  "loadOrders json sto st =
     (case sto keyOrders of
        None \<Rightarrow> Some st
      | Some storedOrders \<Rightarrow>
          if storedOrders = [] then Some st
          else (case parseOrders json storedOrders of
                  SyntaxError \<Rightarrow> None
                | OtherValue \<Rightarrow> Some st
                | Parsed xs \<Rightarrow> Some (st\<lparr>orders := xs\<rparr>)))"

text \<open>\<open>win\<close> says whether \<open>window\<close> is defined.\<close>

definition loadEffect :: "Json \<Rightarrow> bool \<Rightarrow> storage \<Rightarrow> AppState \<Rightarrow> AppState" where
  "loadEffect json win sto st =
     (if \<not> win then st\<lparr>initialized := True\<rparr>
      else
        (case loadAdmin json sto st of
           None \<Rightarrow> st
         | Some s1 \<Rightarrow>
             (case loadSpices json sto s1 of
                None \<Rightarrow> s1
              | Some s2 \<Rightarrow>
                  (case loadUsers json sto s2 of
                     None \<Rightarrow> s2
                   | Some s3 \<Rightarrow>
                       (case loadOrders json sto s3 of
                          None \<Rightarrow> s3
                        | Some s4 \<Rightarrow> s4))))
        \<lparr>initialized := True\<rparr>)"

text \<open>
  The four persist effects. \<open>writable\<close> says whether \<open>setItem\<close> takes the text; when it
  throws, the effect logs the error and the slot keeps what it had.
\<close>

definition persistAdmin :: "Json \<Rightarrow> bool \<Rightarrow> bool \<Rightarrow> AppState \<Rightarrow> storage \<Rightarrow> storage" where
  "persistAdmin json win writable st sto =
     (if \<not> initialized st \<or> \<not> win then sto
      else if writable then sto(keyAdmin \<mapsto> stringifyAdmin json (adminConfig st)) else sto)"

definition persistSpices :: "Json \<Rightarrow> bool \<Rightarrow> bool \<Rightarrow> AppState \<Rightarrow> storage \<Rightarrow> storage" where
  "persistSpices json win writable st sto =
     (if \<not> initialized st \<or> \<not> win then sto
      else if writable then sto(keySpices \<mapsto> stringifySpices json (spices st)) else sto)"

definition persistUsers :: "Json \<Rightarrow> bool \<Rightarrow> bool \<Rightarrow> AppState \<Rightarrow> storage \<Rightarrow> storage" where
  "persistUsers json win writable st sto =
     (if \<not> initialized st \<or> \<not> win then sto
      else if writable then sto(keyUsers \<mapsto> stringifyUsers json (users st)) else sto)"

definition persistOrders :: "Json \<Rightarrow> bool \<Rightarrow> bool \<Rightarrow> AppState \<Rightarrow> storage \<Rightarrow> storage" where
  "persistOrders json win writable st sto =
     (if \<not> initialized st \<or> \<not> win then sto
      else if writable then sto(keyOrders \<mapsto> stringifyOrders json (orders st)) else sto)"

text \<open>All four stores saved, as the effects do once \<open>initialized\<close> has turned true.\<close>

definition persistAll :: "Json \<Rightarrow> bool \<Rightarrow> bool \<Rightarrow> AppState \<Rightarrow> storage \<Rightarrow> storage" where
  "persistAll json win writable st sto =
     persistOrders json win writable st
       (persistUsers json win writable st
          (persistSpices json win writable st (persistAdmin json win writable st sto)))"

text \<open>
  What \<open>JSON.parse\<close> gives for the text that \<open>JSON.stringify\<close> wrote for the settings:
  the properties that are not \<open>undefined\<close>.
\<close>

definition patchOf :: "AdminConfig \<Rightarrow> AdminPatch" where
  "patchOf c =
     \<lparr>patch_adminEmail = Some (adminEmail c), patch_brandTagline = Some (brandTagline c),
      patch_supportPhone = supportPhone c, patch_upiId = upiId c, patch_city = admin_city c,
      patch_minimumOrderNote = minimumOrderNote c\<rparr>"

text \<open>
  The contract of the platform for the four values of a state: the text written is not
  empty and parses back to the value.
\<close>

definition jsonRoundTrips :: "Json \<Rightarrow> AppState \<Rightarrow> bool" where
  "jsonRoundTrips json st \<longleftrightarrow>
     stringifyAdmin json (adminConfig st) \<noteq> [] \<and>
     parseAdmin json (stringifyAdmin json (adminConfig st)) = Parsed (patchOf (adminConfig st)) \<and>
     stringifySpices json (spices st) \<noteq> [] \<and>
     parseSpices json (stringifySpices json (spices st)) = Parsed (spices st) \<and>
     stringifyUsers json (users st) \<noteq> [] \<and>
     parseUsers json (stringifyUsers json (users st)) = Parsed (users st) \<and>
     stringifyOrders json (orders st) \<noteq> [] \<and>
     parseOrders json (stringifyOrders json (orders st)) = Parsed (orders st)"

subsection \<open>Concrete inputs for the examples\<close>

definition sampleSpice :: "string \<Rightarrow> string \<Rightarrow> int \<Rightarrow> Spice" where
  "sampleSpice ident name p =
     \<lparr>spice_id = ident, spice_name = name, spice_description = ''Custom Homelike blend.'',
      spice_notes = None, spice_price = p, spice_unit = ''100g'', spice_heat = Medium,
      spice_origin = None, spice_isNew = Some True, spice_isSignature = Some False,
      spice_colorClass = ''from-amber-500 via-orange-500 to-rose-500'',
      spice_imageDataUrl = None\<rparr>"

text \<open>A platform whose formatter writes the plain amount.\<close>

definition sampleEnv :: Env where
  "sampleEnv =
     \<lparr>now = 1700000000000, isoNow = ''2023-11-14T22:13:20.000Z'', hasWindow = True,
      formatINR = (\<lambda>amount. ''INR '' @ showInt amount)\<rparr>"

text \<open>
  A session after start-up with the products \<open>p1\<close> at 100 and \<open>p2\<close> at 50 in the
  catalog and the contact fields filled in.
\<close>

definition sampleState :: AppState where
  "sampleState =
     initialState
       \<lparr>spices := [sampleSpice ''p1'' ''Pepper'' 100, sampleSpice ''p2'' ''Cumin'' 50],
        initialized := True,
        orderName := '' Asha Rao '',
        orderEmail := ''asha@example.com'',
        orderNote := ''ring the bell''\<rparr>"

text \<open>
  The form of the admin panel filled in for a product \<open>Chai Mix\<close> at 120, and \<open>Number\<close>
  on the text of that price.
\<close>

definition chaiDraft :: NewSpice where
  "chaiDraft = blankNewSpice\<lparr>draft_name := ''Chai Mix'', draft_price := ''120''\<rparr>"

definition sampleNumber :: "string \<Rightarrow> jsnumber" where
  "sampleNumber text = (if text = ''120'' then Finite 120 else NaN)"

text \<open>
  A stand-in for \<open>JSON\<close> that is right on the values of the examples: an empty array is
  written as \<open>[]\<close> and read back as the empty array; two more texts stand for the default
  settings and for the catalog of \<open>sampleState\<close>.
\<close>

definition sampleJson :: Json where
  "sampleJson =
     \<lparr>stringifyAdmin = (\<lambda>c. ''{settings}''),
      stringifySpices = (\<lambda>xs. if xs = [] then ''[]'' else ''[catalog]''),
      stringifyUsers = (\<lambda>xs. ''[]''),
      stringifyOrders = (\<lambda>xs. ''[]''),
      parseAdmin = (\<lambda>text. if text = ''{settings}'' then Parsed (patchOf defaultAdminConfig)
                           else SyntaxError),
      parseSpices = (\<lambda>text. if text = ''[]'' then Parsed []
                            else if text = ''[catalog]'' then Parsed (spices sampleState)
                            else SyntaxError),
      parseUsers = (\<lambda>text. if text = ''[]'' then Parsed [] else SyntaxError),
      parseOrders = (\<lambda>text. if text = ''[]'' then Parsed [] else SyntaxError)\<rparr>"


section \<open>Properties\<close>

subsection \<open>The cart\<close>

lemma safeQuantity_nonneg: "0 \<le> safeQuantity v"
  by (cases v) simp_all

lemma set_omitKey: "set (omitKey k c) \<subseteq> set c"
  by (auto simp: omitKey_def)

lemma set_assignKey: "set (assignKey k v c) \<subseteq> insert (k, v) (set c)"
  by (induction c) auto

lemma assignKey_nonempty: "assignKey k v c \<noteq> []"
  by (cases c) auto

lemma handleQuantityChange_positive:
  assumes "\<forall>e \<in> set c. 0 < snd e"
  shows "\<forall>e \<in> set (handleQuantityChange k v c). 0 < snd e"
proof (cases "safeQuantity v \<le> 0")
  case True
  then show ?thesis
    using assms set_omitKey [of k c] by (auto simp: handleQuantityChange_def)
next
  case False
  then show ?thesis
    using assms set_assignKey [of k "safeQuantity v" c]
    by (auto simp: handleQuantityChange_def Let_def)
qed

lemma applyChanges_positive:
  "\<forall>e \<in> set c. 0 < snd e \<Longrightarrow> \<forall>e \<in> set (applyChanges calls c). 0 < snd e"
proof (induction calls arbitrary: c)
  case Nil
  then show ?case by (simp add: applyChanges_def)
next
  case (Cons call calls)
  obtain k v where call: "call = (k, v)" by (cases call)
  have "\<forall>e \<in> set (handleQuantityChange k v c). 0 < snd e"
    using Cons.prems by (rule handleQuantityChange_positive)
  then have "\<forall>e \<in> set (applyChanges calls (handleQuantityChange k v c)). 0 < snd e"
    by (rule Cons.IH)
  then show ?case by (simp add: applyChanges_def call)
qed

text \<open>The cart stays a mapping: no key occurs twice.\<close>

lemma keys_assignKey:
  "map fst (assignKey k v c) = (if k \<in> fst ` set c then map fst c else map fst c @ [k])"
  by (induction c) auto

lemma handleQuantityChange_distinct:
  "distinct (map fst c) \<Longrightarrow> distinct (map fst (handleQuantityChange k v c))"
  by (simp add: handleQuantityChange_def Let_def omitKey_def keys_assignKey distinct_map_filter)

lemma applyChanges_distinct:
  "distinct (map fst c) \<Longrightarrow> distinct (map fst (applyChanges calls c))"
proof (induction calls arbitrary: c)
  case Nil
  then show ?case by (simp add: applyChanges_def)
next
  case (Cons call calls)
  obtain k v where call: "call = (k, v)" by (cases call)
  have "distinct (map fst (handleQuantityChange k v c))"
    using Cons.prems by (rule handleQuantityChange_distinct)
  then have "distinct (map fst (applyChanges calls (handleQuantityChange k v c)))"
    by (rule Cons.IH)
  then show ?case by (simp add: applyChanges_def call)
qed

lemma hasSelection_positive:
  "\<forall>e \<in> set c. 0 < snd e \<Longrightarrow> hasSelection c \<longleftrightarrow> c \<noteq> []"
  by (cases c) (auto simp: hasSelection_def list_ex_iff)

text \<open>
  Claim C3. After any finite sequence of \<open>handleQuantityChange\<close> calls that starts from
  the empty cart, no entry of the cart has a quantity of zero or less, and
  \<open>hasSelection\<close> is true exactly when the cart has at least one entry.
\<close>

theorem cart_entries_positive:
  "(\<forall>e \<in> set (applyChanges calls []). 0 < snd e) \<and>
   (hasSelection (applyChanges calls []) \<longleftrightarrow> applyChanges calls [] \<noteq> [])"
proof -
  have pos: "\<forall>e \<in> set (applyChanges calls []). 0 < snd e"
    by (rule applyChanges_positive) simp
  with hasSelection_positive [OF pos] show ?thesis by simp
qed

theorem cart_entries_positive_witness:
  "applyChanges [(''p1'', Finite (5 / 2)), (''p2'', Finite (- 3)), (''p3'', NaN),
                 (''p2'', Finite 4), (''p1'', Finite 0)] [] = [(''p2'', 4)] \<and>
   hasSelection [(''p2'', 4)]"
  using cart_entries_positive
    [of "[(''p1'', Finite (5 / 2)), (''p2'', Finite (- 3)), (''p3'', NaN),
          (''p2'', Finite 4), (''p1'', Finite 0)]"]
  by (simp add: applyChanges_def handleQuantityChange_def omitKey_def hasSelection_def)

subsection \<open>Reading the cart\<close>


lemma qtyOf_inherited: "inheritedKey c k \<Longrightarrow> qtyOf c k = QInherited"
  by (simp add: qtyOf_def inheritedKey_def)

lemma positive_qtyOf: "positive (qtyOf c k) \<longleftrightarrow> 0 < ownQty c k"
  by (auto simp: qtyOf_def ownQty_def split: option.splits)

text \<open>The selection in terms of the own entries alone.\<close>

lemma selected_own:
  "selected catalog c =
     filter (\<lambda>x. snd x > 0) (map (\<lambda>spice. (spice, ownQty c (spice_id spice))) catalog)"
proof (induction catalog)
  case Nil
  then show ?case by (simp add: selected_def map_filter_simps)
next
  case (Cons s catalog)
  have "(case qtyOf c (spice_id s) of
           QNum qty \<Rightarrow> if qty > 0 then Some (s, qty) else None
         | QInherited \<Rightarrow> None) =
        (if 0 < ownQty c (spice_id s) then Some (s, ownQty c (spice_id s)) else None)"
    by (auto simp: qtyOf_def ownQty_def split: option.splits)
  with Cons show ?case by (simp add: selected_def map_filter_simps)
qed

subsection \<open>The estimate\<close>




text \<open>One inherited read makes the whole estimate \<open>NaN\<close>.\<close>

lemma fold_estimate_NaN:
  "fold (\<lambda>spice sum. plusNumber sum (timesQty (spice_price spice) (qtyOf c (spice_id spice))))
     catalog None = None"
  by (induction catalog) simp_all

lemma estimatedTotal_NaN:
  assumes "s \<in> set catalog" and "inheritedKey c (spice_id s)"
  shows "estimatedTotal catalog c = None"
proof -
  have "fold (\<lambda>spice sum. plusNumber sum (timesQty (spice_price spice) (qtyOf c (spice_id spice))))
          catalog acc = None" for acc
    using assms(1)
  proof (induction catalog arbitrary: acc)
    case Nil
    then show ?case by simp
  next
    case (Cons x catalog)
    show ?case
    proof (cases "x = s")
      case True
      then show ?thesis
        using assms(2) by (cases acc) (simp_all add: qtyOf_inherited fold_estimate_NaN)
    next
      case False
      with Cons.prems have "s \<in> set catalog" by simp
      then show ?thesis by (simp add: Cons.IH)
    qed
  qed
  then show ?thesis by (simp add: estimatedTotal_def)
qed







lemma decimal_sample: "decimal 1700000000000 = ''1700000000000''"
  by (simp add: decimal.simps digitChar_def)

lemma mathRound_120: "mathRound (Finite 120) = 120"
  by (simp add: floor_eq_iff)





subsection \<open>The three ways through \<open>handlePlaceOrder\<close>\<close>

lemma makeOrder_status [simp]:
  "makeOrder env (st\<lparr>orderError := e, orderStatus := s\<rparr>) items t = makeOrder env st items t"
  by (simp add: makeOrder_def)

lemma handlePlaceOrder_missing:
  assumes "trim (orderName st) = [] \<or> trim (orderEmail st) = []"
  shows "handlePlaceOrder env st =
         (st\<lparr>orderError := Some msgMissingContact, orderStatus := None\<rparr>, None)"
  using assms by (auto simp: handlePlaceOrder_def Let_def)

lemma handlePlaceOrder_empty:
  assumes "trim (orderName st) \<noteq> []" and "trim (orderEmail st) \<noteq> []"
    and "selected (spices st) (quantities st) = []"
  shows "handlePlaceOrder env st =
         (st\<lparr>orderError := Some msgEmptyCart, orderStatus := None\<rparr>, None)"
  using assms by (simp add: handlePlaceOrder_def Let_def)

lemma handlePlaceOrder_accepted:
  assumes "trim (orderName st) \<noteq> []" and "trim (orderEmail st) \<noteq> []"
    and "selected (spices st) (quantities st) \<noteq> []"
  shows "handlePlaceOrder env st =
         (st\<lparr>orderError := None,
             orderStatus := Some (if trim (adminEmail (adminConfig st)) \<noteq> [] \<and> hasWindow env
                                  then msgDrafted else msgSavedLocally),
             orders := orders st @ [placedOrder env st],
             quantities := [], orderNote := []\<rparr>,
          if trim (adminEmail (adminConfig st)) \<noteq> [] \<and> hasWindow env
          then Some \<lparr>mail_to = trim (adminEmail (adminConfig st)),
                     mail_subject = ''New Homelike order '' @ order_id (placedOrder env st),
                     mail_body = join [CHR 0x0A] (bodyLines (formatINR env) (placedOrder env st))\<rparr>
          else None)"
  using assms by (simp add: handlePlaceOrder_def Let_def placedOrder_def)

lemma accepted_iff:
  "accepted env st \<longleftrightarrow>
     trim (orderName st) \<noteq> [] \<and> trim (orderEmail st) \<noteq> [] \<and>
     selected (spices st) (quantities st) \<noteq> []"
proof (cases "trim (orderName st) = [] \<or> trim (orderEmail st) = []")
  case True
  then show ?thesis
    using handlePlaceOrder_missing [OF True, of env] by (auto simp: accepted_def)
next
  case False
  then have nb: "trim (orderName st) \<noteq> []" "trim (orderEmail st) \<noteq> []" by simp_all
  show ?thesis
  proof (cases "selected (spices st) (quantities st) = []")
    case True
    with nb show ?thesis
      using handlePlaceOrder_empty [OF nb True, of env] by (simp add: accepted_def)
  next
    case False
    with nb show ?thesis
      using handlePlaceOrder_accepted [OF nb False, of env] by (simp add: accepted_def)
  qed
qed

subsection \<open>An accepted order\<close>












subsection \<open>Rejected submissions\<close>

lemma messages_differ: "msgMissingContact \<noteq> msgEmptyCart"
  by (simp add: msgMissingContact_def msgEmptyCart_def)

lemma selected_empty_iff:
  "selected catalog c = [] \<longleftrightarrow> \<not> (\<exists>s \<in> set catalog. positive (qtyOf c (spice_id s)))"
  by (auto simp: selected_own filter_empty_conv positive_qtyOf)

lemma resolved_positive_iff:
  assumes "distinct (map fst c)" and "\<forall>e \<in> set c. fst e \<in> spice_id ` set catalog"
  shows "(\<exists>s \<in> set catalog. positive (qtyOf c (spice_id s))) \<longleftrightarrow> (\<exists>e \<in> set c. 0 < snd e)"
proof
  assume "\<exists>s \<in> set catalog. positive (qtyOf c (spice_id s))"
  then obtain s where "s \<in> set catalog" and s: "0 < ownQty c (spice_id s)"
    by (auto simp: positive_qtyOf)
  then obtain q where q: "map_of c (spice_id s) = Some q"
    by (cases "map_of c (spice_id s)") (auto simp: ownQty_def)
  with s have "0 < q" by (simp add: ownQty_def)
  moreover from q have "(spice_id s, q) \<in> set c" by (rule map_of_SomeD)
  ultimately show "\<exists>e \<in> set c. 0 < snd e" by force
next
  assume "\<exists>e \<in> set c. 0 < snd e"
  then obtain k q where kq: "(k, q) \<in> set c" "0 < q" by force
  with assms(1) have "map_of c k = Some q" by simp
  then have "ownQty c k = q" by (simp add: ownQty_def)
  moreover from kq assms(2) obtain s where "s \<in> set catalog" "spice_id s = k" by force
  ultimately show "\<exists>s \<in> set catalog. positive (qtyOf c (spice_id s))"
    using kq by (auto simp: positive_qtyOf)
qed

text \<open>
  Claim C2, amended. A submission is rejected with the message for missing contact fields
  exactly when the trimmed name or the trimmed e-mail is empty, and this is checked
  first. Otherwise it is rejected with the message for an empty cart exactly when no
  product of the catalog has a quantity above 0 in the cart; when every entry of the cart
  names a product of the catalog, that is exactly when the cart has no entry with a
  quantity above 0. A rejected submission changes nothing but the two message cells
  \<open>orderError\<close> and \<open>orderStatus\<close>: the order history, the cart and every form field are
  as before, and nothing is handed off.
\<close>

theorem rejection_rules:
  "(orderError (fst (handlePlaceOrder env st)) = Some msgMissingContact \<longleftrightarrow>
      trim (orderName st) = [] \<or> trim (orderEmail st) = []) \<and>
   (orderError (fst (handlePlaceOrder env st)) = Some msgEmptyCart \<longleftrightarrow>
      trim (orderName st) \<noteq> [] \<and> trim (orderEmail st) \<noteq> [] \<and>
      \<not> (\<exists>s \<in> set (spices st). positive (qtyOf (quantities st) (spice_id s)))) \<and>
   (distinct (map fst (quantities st)) \<and>
    (\<forall>e \<in> set (quantities st). fst e \<in> spice_id ` set (spices st)) \<longrightarrow>
      ((\<exists>s \<in> set (spices st). positive (qtyOf (quantities st) (spice_id s))) \<longleftrightarrow>
       (\<exists>e \<in> set (quantities st). 0 < snd e))) \<and>
   (\<not> accepted env st \<longrightarrow>
      handlePlaceOrder env st =
        (st\<lparr>orderError := Some (if trim (orderName st) = [] \<or> trim (orderEmail st) = []
                                   then msgMissingContact else msgEmptyCart),
            orderStatus := None\<rparr>, None))"
proof (cases "trim (orderName st) = [] \<or> trim (orderEmail st) = []")
  case True
  show ?thesis
    using True resolved_positive_iff [of "quantities st" "spices st"]
    by (auto simp: handlePlaceOrder_missing [OF True] messages_differ accepted_def)
next
  case False
  then have nb: "trim (orderName st) \<noteq> []" "trim (orderEmail st) \<noteq> []" by simp_all
  show ?thesis
  proof (cases "selected (spices st) (quantities st) = []")
    case True
    then have none: "\<not> (\<exists>s \<in> set (spices st). positive (qtyOf (quantities st) (spice_id s)))"
      by (simp add: selected_empty_iff)
    show ?thesis
      using nb none resolved_positive_iff [of "quantities st" "spices st"]
      by (auto simp: handlePlaceOrder_empty [OF nb True] messages_differ [symmetric] accepted_def)
  next
    case False
    then have some: "\<exists>s \<in> set (spices st). positive (qtyOf (quantities st) (spice_id s))"
      by (simp add: selected_empty_iff)
    show ?thesis
      using nb some resolved_positive_iff [of "quantities st" "spices st"]
      by (auto simp: handlePlaceOrder_accepted [OF nb False] accepted_def)
  qed
qed

theorem rejection_rules_witness:
  "quantities sampleState = [] \<and>
   \<not> accepted sampleEnv sampleState \<and>
   handlePlaceOrder sampleEnv sampleState =
     (sampleState\<lparr>orderError := Some msgEmptyCart, orderStatus := None\<rparr>, None)"
proof -
  note r = rejection_rules [of sampleEnv sampleState]
  have nb: "trim (orderName sampleState) \<noteq> []" "trim (orderEmail sampleState) \<noteq> []"
    by (simp_all add: sampleState_def initialState_def trim_def isSpace_def)
  have cart: "quantities sampleState = []"
    by (simp add: sampleState_def initialState_def)
  then have res: "distinct (map fst (quantities sampleState)) \<and>
      (\<forall>e \<in> set (quantities sampleState). fst e \<in> spice_id ` set (spices sampleState))"
    and none: "\<not> (\<exists>e \<in> set (quantities sampleState). 0 < snd e)"
    by simp_all
  from r res none
  have "\<not> (\<exists>s \<in> set (spices sampleState). positive (qtyOf (quantities sampleState) (spice_id s)))"
    by blast
  with r nb have e: "orderError (fst (handlePlaceOrder sampleEnv sampleState)) = Some msgEmptyCart"
    by blast
  then have na: "\<not> accepted sampleEnv sampleState" by (simp add: accepted_def)
  with r have "handlePlaceOrder sampleEnv sampleState =
      (sampleState\<lparr>orderError := Some (if trim (orderName sampleState) = [] \<or>
                                             trim (orderEmail sampleState) = []
                                          then msgMissingContact else msgEmptyCart),
                   orderStatus := None\<rparr>, None)"
    by blast
  with nb have "handlePlaceOrder sampleEnv sampleState =
      (sampleState\<lparr>orderError := Some msgEmptyCart, orderStatus := None\<rparr>, None)"
    by simp
  with cart na show ?thesis by blast
qed

text \<open>
  As the specification words it, the second rule fails: the cart below has an entry with
  quantity 2, its product \<open>p9\<close> is not in the catalog, and the submission is rejected
  with the message for an empty cart.
\<close>

theorem empty_cart_counterexample:
  "hasSelection (quantities (sampleState\<lparr>quantities := [(''p9'', 2)]\<rparr>)) \<and>
   trim (orderName (sampleState\<lparr>quantities := [(''p9'', 2)]\<rparr>)) \<noteq> [] \<and>
   trim (orderEmail (sampleState\<lparr>quantities := [(''p9'', 2)]\<rparr>)) \<noteq> [] \<and>
   orderError (fst (handlePlaceOrder sampleEnv (sampleState\<lparr>quantities := [(''p9'', 2)]\<rparr>)))
     = Some msgEmptyCart"
  by (simp add: sampleState_def initialState_def sampleSpice_def trim_def isSpace_def
      handlePlaceOrder_def selected_own ownQty_def hasSelection_def Let_def)

subsection \<open>What an accepted submission leaves alone\<close>

text \<open>
  Claim C10. An accepted submission empties the cart and the order note, appends the
  order and sets the two message cells; every other cell of the state is as before, in
  particular the contact fields (name, e-mail, phone, address, city, postal code), the
  payment method, the active profile, the profiles, the catalog and the settings.
\<close>

theorem accepted_frame:
  assumes "accepted env st"
  shows "fst (handlePlaceOrder env st) =
           st\<lparr>orderError := None,
              orderStatus := Some (if trim (adminEmail (adminConfig st)) \<noteq> [] \<and> hasWindow env
                                   then msgDrafted else msgSavedLocally),
              orders := orders st @ [placedOrder env st],
              quantities := [], orderNote := []\<rparr> \<and>
         orderName (fst (handlePlaceOrder env st)) = orderName st \<and>
         orderEmail (fst (handlePlaceOrder env st)) = orderEmail st \<and>
         orderPhone (fst (handlePlaceOrder env st)) = orderPhone st \<and>
         orderAddress (fst (handlePlaceOrder env st)) = orderAddress st \<and>
         orderCity (fst (handlePlaceOrder env st)) = orderCity st \<and>
         orderPostalCode (fst (handlePlaceOrder env st)) = orderPostalCode st \<and>
         paymentMethod (fst (handlePlaceOrder env st)) = paymentMethod st \<and>
         currentUserId (fst (handlePlaceOrder env st)) = currentUserId st \<and>
         users (fst (handlePlaceOrder env st)) = users st \<and>
         spices (fst (handlePlaceOrder env st)) = spices st \<and>
         adminConfig (fst (handlePlaceOrder env st)) = adminConfig st"
proof -
  from assms have nb: "trim (orderName st) \<noteq> []" "trim (orderEmail st) \<noteq> []"
    and sel: "selected (spices st) (quantities st) \<noteq> []"
    by (simp_all add: accepted_iff)
  show ?thesis by (simp add: handlePlaceOrder_accepted [OF nb sel])
qed

theorem accepted_frame_witness:
  "accepted sampleEnv (sampleState\<lparr>quantities := [(''p1'', 2)]\<rparr>) \<and>
   orderName (fst (handlePlaceOrder sampleEnv (sampleState\<lparr>quantities := [(''p1'', 2)]\<rparr>)))
     = '' Asha Rao '' \<and>
   spices (fst (handlePlaceOrder sampleEnv (sampleState\<lparr>quantities := [(''p1'', 2)]\<rparr>)))
     = [sampleSpice ''p1'' ''Pepper'' 100, sampleSpice ''p2'' ''Cumin'' 50]"
proof -
  let ?s = "sampleState\<lparr>quantities := [(''p1'', 2)]\<rparr>"
  have a: "accepted sampleEnv ?s"
    by (simp add: accepted_iff sampleState_def initialState_def sampleSpice_def trim_def
        isSpace_def selected_own ownQty_def)
  note f = accepted_frame [OF a]
  from f have "orderName (fst (handlePlaceOrder sampleEnv ?s)) = orderName ?s"
    and "spices (fst (handlePlaceOrder sampleEnv ?s)) = spices ?s"
    by blast+
  with a show ?thesis by (simp add: sampleState_def initialState_def)
qed

subsection \<open>The hand-off\<close>

text \<open>
  Claim C9, amended. For an accepted order in a browser (\<open>window\<close> is defined), the
  hand-off depends only on whether the admin e-mail of the settings is non-empty after
  trimming: if so, the mail composer gets the trimmed address as recipient, the subject
  \<open>New Homelike order\<close> followed by the order identifier, and the receipt lines joined
  by newlines as body, and the status says that the order was drafted; otherwise nothing
  is handed off and the status says that the order was saved locally.
\<close>

theorem handoff_decision:
  assumes "accepted env st" and "hasWindow env"
  shows "snd (handlePlaceOrder env st) =
           (if trim (adminEmail (adminConfig st)) \<noteq> []
            then Some \<lparr>mail_to = trim (adminEmail (adminConfig st)),
                       mail_subject = ''New Homelike order '' @ order_id (placedOrder env st),
                       mail_body = join [CHR 0x0A] (bodyLines (formatINR env) (placedOrder env st))\<rparr>
            else None) \<and>
         orderStatus (fst (handlePlaceOrder env st)) =
           Some (if trim (adminEmail (adminConfig st)) \<noteq> [] then msgDrafted else msgSavedLocally) \<and>
         last (orders (fst (handlePlaceOrder env st))) = placedOrder env st"
proof -
  from assms have nb: "trim (orderName st) \<noteq> []" "trim (orderEmail st) \<noteq> []"
    and sel: "selected (spices st) (quantities st) \<noteq> []"
    by (simp_all add: accepted_iff)
  show ?thesis using assms(2) by (simp add: handlePlaceOrder_accepted [OF nb sel])
qed


theorem handoff_decision_witness:
  "accepted sampleEnv
     (sampleState\<lparr>adminConfig := defaultAdminConfig\<lparr>adminEmail := '' owner@homelike.in''\<rparr>,
                  quantities := [(''p1'', 2)]\<rparr>) \<and>
   hasWindow sampleEnv \<and>
   map_option mail_to (snd (handlePlaceOrder sampleEnv
     (sampleState\<lparr>adminConfig := defaultAdminConfig\<lparr>adminEmail := '' owner@homelike.in''\<rparr>,
                  quantities := [(''p1'', 2)]\<rparr>))) = Some ''owner@homelike.in'' \<and>
   orderStatus (fst (handlePlaceOrder sampleEnv
     (sampleState\<lparr>adminConfig := defaultAdminConfig\<lparr>adminEmail := '' owner@homelike.in''\<rparr>,
                  quantities := [(''p1'', 2)]\<rparr>))) = Some msgDrafted"
proof -
  let ?s = "sampleState\<lparr>adminConfig := defaultAdminConfig\<lparr>adminEmail := '' owner@homelike.in''\<rparr>,
                        quantities := [(''p1'', 2)]\<rparr>"
  have a: "accepted sampleEnv ?s"
    by (simp add: accepted_iff sampleState_def initialState_def sampleSpice_def trim_def
        isSpace_def selected_own ownQty_def)
  have w: "hasWindow sampleEnv" by (simp add: sampleEnv_def)
  have t: "trim (adminEmail (adminConfig ?s)) = ''owner@homelike.in''"
    by (simp add: trim_def isSpace_def)
  from handoff_decision [OF a w] t a w show ?thesis by simp
qed

text \<open>
  As the specification words it, the decision fails for an address that is not empty but
  blank: nothing is handed off.
\<close>

theorem handoff_counterexample:
  "adminEmail (adminConfig (sampleState\<lparr>adminConfig := defaultAdminConfig\<lparr>adminEmail := ''  ''\<rparr>,
                                         quantities := [(''p1'', 2)]\<rparr>)) \<noteq> [] \<and>
   hasWindow sampleEnv \<and>
   accepted sampleEnv (sampleState\<lparr>adminConfig := defaultAdminConfig\<lparr>adminEmail := ''  ''\<rparr>,
                                   quantities := [(''p1'', 2)]\<rparr>) \<and>
   snd (handlePlaceOrder sampleEnv
          (sampleState\<lparr>adminConfig := defaultAdminConfig\<lparr>adminEmail := ''  ''\<rparr>,
                       quantities := [(''p1'', 2)]\<rparr>)) = None \<and>
   orderStatus (fst (handlePlaceOrder sampleEnv
          (sampleState\<lparr>adminConfig := defaultAdminConfig\<lparr>adminEmail := ''  ''\<rparr>,
                       quantities := [(''p1'', 2)]\<rparr>))) = Some msgSavedLocally"
proof -
  let ?s = "sampleState\<lparr>adminConfig := defaultAdminConfig\<lparr>adminEmail := ''  ''\<rparr>,
                        quantities := [(''p1'', 2)]\<rparr>"
  have nb: "trim (orderName ?s) \<noteq> []" "trim (orderEmail ?s) \<noteq> []"
    by (simp_all add: sampleState_def initialState_def trim_def isSpace_def)
  have sel: "selected (spices ?s) (quantities ?s) \<noteq> []"
    by (simp add: sampleState_def initialState_def sampleSpice_def selected_own ownQty_def)
  have t: "trim (adminEmail (adminConfig ?s)) = []"
    by (simp add: trim_def isSpace_def)
  have a: "accepted sampleEnv ?s" using nb sel by (simp add: accepted_iff)
  show ?thesis
    using a t by (simp add: handlePlaceOrder_accepted [OF nb sel] sampleEnv_def)
qed

subsection \<open>The address line of the receipt\<close>

lemma last_dropWhile_nonempty:
  "dropWhile P xs \<noteq> [] \<Longrightarrow> last (dropWhile P xs) = last xs"
  by (induction xs) (auto split: if_splits)

lemma trim_fixed:
  assumes "s \<noteq> []" and "\<not> isSpace (hd s)" and "\<not> isSpace (last s)"
  shows "trim s = s"
proof -
  from assms(1,2) have "dropWhile isSpace s = s" by (cases s) simp_all
  moreover from assms(1,3) have "dropWhile isSpace (rev s) = rev s"
    by (cases "rev s") (simp_all add: hd_rev [symmetric] del: hd_rev)
  ultimately show ?thesis by (simp add: trim_def)
qed

lemma trim_ends:
  assumes "trim s \<noteq> []"
  shows "\<not> isSpace (hd (trim s))" and "\<not> isSpace (last (trim s))"
proof -
  let ?d = "dropWhile isSpace s"
  let ?e = "dropWhile isSpace (rev ?d)"
  from assms have e: "?e \<noteq> []" by (simp add: trim_def)
  have d: "?d \<noteq> []"
  proof
    assume "?d = []"
    then have "?e = []" by (simp only: rev.simps dropWhile.simps)
    with e show False by (simp only: not_False_eq_True simp_thms)
  qed
  from e have "\<not> isSpace (hd ?e)" by (rule hd_dropWhile)
  then show "\<not> isSpace (last (trim s))" using e by (simp add: trim_def last_rev)
  from e have "last ?e = last (rev ?d)" by (rule last_dropWhile_nonempty)
  also have "\<dots> = hd ?d" using d by (simp add: last_rev)
  finally have "hd (trim s) = hd ?d" using e by (simp add: trim_def hd_rev)
  moreover from d have "\<not> isSpace (hd ?d)" by (rule hd_dropWhile)
  ultimately show "\<not> isSpace (hd (trim s))" by simp
qed

lemma isSpace_blank: "isSpace CHR '' ''"
  by (simp add: isSpace_def)

lemma trim_Nil: "trim [] = []"
  by (simp add: trim_def)

lemma trim_space_front: "trim (CHR '' '' # s) = trim s"
  by (simp add: trim_def isSpace_blank)

lemma trim_space_back: "trim (s @ '' '') = trim s"
proof (cases "\<forall>c \<in> set s. isSpace c")
  case True
  then have "dropWhile isSpace (s @ '' '') = []" "dropWhile isSpace s = []"
    using isSpace_blank by (simp_all add: dropWhile_eq_Nil_conv)
  then show ?thesis unfolding trim_def by (simp only: rev.simps dropWhile.simps)
next
  case False
  then have "dropWhile isSpace (s @ '' '') = dropWhile isSpace s @ '' ''"
    by (auto simp: dropWhile_append1)
  then show ?thesis by (simp add: trim_def isSpace_blank)
qed

lemma trim_trim: "trim (trim s) = trim s"
proof (cases "trim s = []")
  case True
  then show ?thesis by (simp add: trim_Nil)
next
  case False
  then show ?thesis using trim_ends [OF False] by (simp add: trim_fixed)
qed

text \<open>
  The second address part of the receipt: city and postal code with one blank between
  them, trimmed. Both are trimmed when they come from the form.
\<close>

lemma trim_locality:
  "trim (trim c @ CHR '' '' # trim p) =
     (if trim p = [] then trim c else if trim c = [] then trim p
      else trim c @ CHR '' '' # trim p)"
proof (cases "trim p = []")
  case True
  then show ?thesis using trim_space_back [of "trim c"] by (simp add: trim_trim)
next
  case p: False
  show ?thesis
  proof (cases "trim c = []")
    case True
    with p show ?thesis by (simp add: trim_space_front trim_trim)
  next
    case c: False
    have "trim (trim c @ CHR '' '' # trim p) = trim c @ CHR '' '' # trim p"
      using trim_ends [OF c] trim_ends [OF p] c p by (intro trim_fixed) simp_all
    with c p show ?thesis by simp
  qed
qed

lemma join_Cons_prefix: "join sep (x # xs) = x @ (if xs = [] then [] else sep @ join sep xs)"
  by (cases xs) simp_all

lemma lineItemsText_no_address: "\<not> prefix ''Address: '' (lineItemsText fmt items)"
  by (cases items) (simp_all add: lineItemsText_def join_Cons_prefix)

text \<open>No other line of the receipt begins like the address line.\<close>

lemma address_in_body:
  "filter (prefix ''Address: '') (bodyLines fmt order) =
     (if addressLines order = [] then []
      else [''Address: '' @ join '', '' (addressLines order)])"
  by (simp add: bodyLines_def lineItemsText_no_address)

lemma truthy_orUndefined: "truthy (orUndefined s) \<longleftrightarrow> s \<noteq> []"
  by (simp add: orUndefined_def)

lemma orEmpty_orUndefined: "orEmpty (orUndefined s) = s"
  by (simp add: orUndefined_def)

lemma addressLines_placedOrder:
  "addressLines (placedOrder env st) =
     (if trim (orderAddress st) = [] then [] else [trim (orderAddress st)]) @
     (if trim (orderCity st) = [] \<and> trim (orderPostalCode st) = [] then []
      else [if trim (orderPostalCode st) = [] then trim (orderCity st)
            else if trim (orderCity st) = [] then trim (orderPostalCode st)
            else trim (orderCity st) @ '' '' @ trim (orderPostalCode st)])"
  by (simp add: addressLines_def placedOrder_def makeOrder_def truthy_orUndefined
      orEmpty_orUndefined trim_locality)

text \<open>
  Claim C8, amended. The receipt of an order has one address line, and has none when
  street, city and postal code are all blank. The line is \<open>Address:\<close> followed by the
  street and the locality joined with a comma and a blank, where the locality is the
  city and the postal code with a single blank between them (only the one that is there
  when the other is missing). Here \<open>placedOrder env st\<close> is the order that a submission in
  state \<open>st\<close> builds.
\<close>

theorem address_line:
  "filter (prefix ''Address: '') (bodyLines fmt (placedOrder env st)) =
     (if trim (orderAddress st) = [] \<and> trim (orderCity st) = [] \<and> trim (orderPostalCode st) = []
      then []
      else [''Address: '' @ join '', ''
              ((if trim (orderAddress st) = [] then [] else [trim (orderAddress st)]) @
               (if trim (orderCity st) = [] \<and> trim (orderPostalCode st) = [] then []
                else [if trim (orderPostalCode st) = [] then trim (orderCity st)
                      else if trim (orderCity st) = [] then trim (orderPostalCode st)
                      else trim (orderCity st) @ '' '' @ trim (orderPostalCode st)]))])"
  by (simp add: address_in_body addressLines_placedOrder)

theorem address_line_witness:
  "filter (prefix ''Address: '')
     (bodyLines (formatINR sampleEnv)
        (placedOrder sampleEnv
           (sampleState\<lparr>orderAddress := ''12 Main Road '', orderCity := ''Pune'',
                        orderPostalCode := ''411001'', quantities := [(''p1'', 2)]\<rparr>)))
   = [''Address: 12 Main Road, Pune 411001'']"
  using address_line [of "formatINR sampleEnv" sampleEnv
      "sampleState\<lparr>orderAddress := ''12 Main Road '', orderCity := ''Pune'',
                   orderPostalCode := ''411001'', quantities := [(''p1'', 2)]\<rparr>"]
  by (simp add: trim_def isSpace_def)

text \<open>
  As the specification words it (all three parts joined with a comma and a blank), the
  line would read \<open>Address: Pune, 411001\<close> for the accepted order below; the receipt
  has \<open>Address: Pune 411001\<close> instead.
\<close>

theorem address_line_counterexample:
  "accepted sampleEnv
     (sampleState\<lparr>orderCity := ''Pune'', orderPostalCode := ''411001'',
                  quantities := [(''p1'', 2)]\<rparr>) \<and>
   specAddressLine (placedOrder sampleEnv
     (sampleState\<lparr>orderCity := ''Pune'', orderPostalCode := ''411001'',
                  quantities := [(''p1'', 2)]\<rparr>)) = ''Pune, 411001'' \<and>
   ''Address: Pune, 411001'' \<notin> set (bodyLines (formatINR sampleEnv) (placedOrder sampleEnv
     (sampleState\<lparr>orderCity := ''Pune'', orderPostalCode := ''411001'',
                  quantities := [(''p1'', 2)]\<rparr>))) \<and>
   ''Address: Pune 411001'' \<in> set (bodyLines (formatINR sampleEnv) (placedOrder sampleEnv
     (sampleState\<lparr>orderCity := ''Pune'', orderPostalCode := ''411001'',
                  quantities := [(''p1'', 2)]\<rparr>)))"
proof -
  let ?s = "sampleState\<lparr>orderCity := ''Pune'', orderPostalCode := ''411001'',
                        quantities := [(''p1'', 2)]\<rparr>"
  let ?body = "bodyLines (formatINR sampleEnv) (placedOrder sampleEnv ?s)"
  have a: "accepted sampleEnv ?s"
    by (simp add: accepted_iff sampleState_def initialState_def sampleSpice_def trim_def
        isSpace_def selected_own ownQty_def)
  have spec: "specAddressLine (placedOrder sampleEnv ?s) = ''Pune, 411001''"
    by (simp add: specAddressLine_def placedOrder_def makeOrder_def orUndefined_def
        sampleState_def initialState_def trim_def isSpace_def)
  have "addressLines (placedOrder sampleEnv ?s) = [''Pune 411001'']"
    by (simp add: addressLines_placedOrder sampleState_def initialState_def trim_def isSpace_def)
  then have f: "filter (prefix ''Address: '') ?body = [''Address: Pune 411001'']"
    by (simp add: address_in_body)
  have "''Address: Pune 411001'' \<in> set (filter (prefix ''Address: '') ?body)"
    unfolding f by simp
  then have yes: "''Address: Pune 411001'' \<in> set ?body"
    by (simp only: set_filter mem_Collect_eq)
  have no: "''Address: Pune, 411001'' \<notin> set ?body"
  proof
    assume "''Address: Pune, 411001'' \<in> set ?body"
    moreover have "prefix ''Address: '' ''Address: Pune, 411001''" by simp
    ultimately have "''Address: Pune, 411001'' \<in> set (filter (prefix ''Address: '') ?body)"
      by (simp only: set_filter mem_Collect_eq simp_thms)
    then show False unfolding f by simp
  qed
  from a spec yes no show ?thesis by (intro conjI)
qed

subsection \<open>Saving a profile\<close>

lemma makeUser_status [simp]:
  "makeUser i (st\<lparr>profileStatus := x\<rparr>) = makeUser i st"
  by (simp add: makeUser_def)

lemma sameEmail_makeUser [simp]: "sameEmail (orderEmail st) (makeUser i st)"
  by (simp add: sameEmail_def makeUser_def)

lemma user_id_makeUser [simp]: "user_id (makeUser i st) = i"
  by (simp add: makeUser_def)

lemma handleSaveProfile_update:
  assumes "trim (orderName st) \<noteq> []" and "trim (orderEmail st) \<noteq> []"
    and "find (sameEmail (orderEmail st)) (users st) = Some e"
  shows "users (handleSaveProfile t st) =
           map (\<lambda>u. if user_id u = user_id e then makeUser (user_id e) st else u) (users st)"
  using assms by (simp add: handleSaveProfile_def Let_def)

lemma handleSaveProfile_create:
  assumes "trim (orderName st) \<noteq> []" and "trim (orderEmail st) \<noteq> []"
    and "find (sameEmail (orderEmail st)) (users st) = None"
  shows "users (handleSaveProfile t st) = users st @ [makeUser (''user-'' @ decimal t) st]"
  using assms by (simp add: handleSaveProfile_def Let_def)

lemma filter_eq_distinct:
  "distinct xs \<Longrightarrow> e \<in> set xs \<Longrightarrow> filter (\<lambda>x. x = e) xs = [e]"
  by (induction xs) (auto simp: filter_empty_conv)

text \<open>
  One save on a well-formed store: the store stays well-formed, it has exactly one
  profile for the e-mail of the form, and the profiles of other e-mails are as before.
\<close>

lemma upsert_once:
  assumes name: "trim (orderName st) \<noteq> []" and email: "trim (orderEmail st) \<noteq> []"
    and ok: "profilesOk (users st)"
    and fresh: "find (sameEmail (orderEmail st)) (users st) = None \<longrightarrow>
                ''user-'' @ decimal t \<notin> user_id ` set (users st)"
  shows "profilesOk (users (handleSaveProfile t st))"
    and "filter (sameEmail (orderEmail st)) (users (handleSaveProfile t st)) =
           [makeUser (case find (sameEmail (orderEmail st)) (users st) of
                        Some e \<Rightarrow> user_id e | None \<Rightarrow> ''user-'' @ decimal t) st]"
    and "filter (\<lambda>u. \<not> sameEmail (orderEmail st) u) (users (handleSaveProfile t st)) =
           filter (\<lambda>u. \<not> sameEmail (orderEmail st) u) (users st)"
proof -
  let ?P = "sameEmail (orderEmail st)"
  let ?us = "users st"
  have ids: "distinct (map user_id ?us)"
    and mails: "distinct (map (\<lambda>u. toLowerCase (user_email u)) ?us)"
    using ok by (simp_all add: profilesOk_def)
  have goal: "profilesOk (users (handleSaveProfile t st)) \<and>
      filter ?P (users (handleSaveProfile t st)) =
        [makeUser (case find ?P ?us of Some e \<Rightarrow> user_id e | None \<Rightarrow> ''user-'' @ decimal t) st] \<and>
      filter (\<lambda>u. \<not> ?P u) (users (handleSaveProfile t st)) = filter (\<lambda>u. \<not> ?P u) ?us"
  proof (cases "find ?P ?us")
    case None
    then have nomatch: "\<forall>u \<in> set ?us. \<not> ?P u" by (simp add: find_None_iff)
    from None fresh have f: "''user-'' @ decimal t \<notin> user_id ` set ?us" by simp
    let ?b = "makeUser (''user-'' @ decimal t) st"
    have key: "toLowerCase (user_email ?b) \<notin> (\<lambda>u. toLowerCase (user_email u)) ` set ?us"
      using nomatch by (auto simp: sameEmail_def makeUser_def)
    have "profilesOk (?us @ [?b])"
      using ids mails f key by (simp add: profilesOk_def)
    moreover have "filter ?P (?us @ [?b]) = [?b]"
      using nomatch by (simp add: filter_empty_conv)
    moreover have "filter (\<lambda>u. \<not> ?P u) (?us @ [?b]) = filter (\<lambda>u. \<not> ?P u) ?us"
      by simp
    ultimately show ?thesis
      by (simp add: handleSaveProfile_create [OF name email None] None)
  next
    case (Some e)
    then have e: "e \<in> set ?us" "?P e" by (auto simp: find_Some_iff)
    let ?b = "makeUser (user_id e) st"
    let ?f = "\<lambda>u. if user_id u = user_id e then ?b else u"
    have inj_id: "inj_on user_id (set ?us)" using ids by (simp add: distinct_map)
    have inj_mail: "inj_on (\<lambda>u. toLowerCase (user_email u)) (set ?us)"
      using mails by (simp add: distinct_map)
    have same_id: "user_id u = user_id e \<longleftrightarrow> u = e" if "u \<in> set ?us" for u
      using inj_id that e(1) by (auto dest: inj_onD)
    have same_mail: "?P u \<longleftrightarrow> u = e" if "u \<in> set ?us" for u
    proof
      assume "?P u"
      with e(2) have "toLowerCase (user_email u) = toLowerCase (user_email e)"
        by (simp add: sameEmail_def)
      with inj_mail that e(1) show "u = e" by (auto dest: inj_onD)
    next
      assume "u = e" with e(2) show "?P u" by simp
    qed
    have f_id: "map user_id (map ?f ?us) = map user_id ?us"
      by simp
    have f_mail: "toLowerCase (user_email (?f u)) = toLowerCase (user_email u)"
      if "u \<in> set ?us" for u
      using same_id [OF that] e(2) by (auto simp: sameEmail_def makeUser_def)
    then have f_mails: "map (\<lambda>u. toLowerCase (user_email u)) (map ?f ?us) =
                        map (\<lambda>u. toLowerCase (user_email u)) ?us"
      by simp
    have P_f: "?P (?f u) \<longleftrightarrow> u = e" if "u \<in> set ?us" for u
      using f_mail [OF that] same_mail [OF that] by (simp add: sameEmail_def)
    have dus: "distinct ?us" using ids by (metis distinct_map)
    have "filter ?P (map ?f ?us) = map ?f (filter (\<lambda>u. ?P (?f u)) ?us)"
      by (simp add: filter_map comp_def)
    also have "filter (\<lambda>u. ?P (?f u)) ?us = filter (\<lambda>u. u = e) ?us"
      by (rule filter_cong) (simp_all add: P_f)
    also have "\<dots> = [e]" using dus e(1) by (rule filter_eq_distinct)
    finally have one: "filter ?P (map ?f ?us) = [?b]" by simp
    have "filter (\<lambda>u. \<not> ?P u) (map ?f ?us) = map ?f (filter (\<lambda>u. \<not> ?P (?f u)) ?us)"
      by (simp add: filter_map comp_def)
    also have "filter (\<lambda>u. \<not> ?P (?f u)) ?us = filter (\<lambda>u. \<not> ?P u) ?us"
      by (rule filter_cong) (simp_all add: P_f same_mail)
    also have "map ?f (filter (\<lambda>u. \<not> ?P u) ?us) = filter (\<lambda>u. \<not> ?P u) ?us"
    proof -
      have "map ?f (filter (\<lambda>u. \<not> ?P u) ?us) = map (\<lambda>u. u) (filter (\<lambda>u. \<not> ?P u) ?us)"
        by (rule map_cong) (auto simp: same_id same_mail)
      then show ?thesis by simp
    qed
    finally have rest: "filter (\<lambda>u. \<not> ?P u) (map ?f ?us) = filter (\<lambda>u. \<not> ?P u) ?us" .
    have "profilesOk (map ?f ?us)"
      unfolding profilesOk_def f_id f_mails using ids mails by simp
    with one rest show ?thesis
      by (simp add: handleSaveProfile_update [OF name email Some] Some)
  qed
  then show "profilesOk (users (handleSaveProfile t st))"
    and "filter ?P (users (handleSaveProfile t st)) =
        [makeUser (case find ?P ?us of Some e \<Rightarrow> user_id e | None \<Rightarrow> ''user-'' @ decimal t) st]"
    and "filter (\<lambda>u. \<not> ?P u) (users (handleSaveProfile t st)) = filter (\<lambda>u. \<not> ?P u) ?us"
    by simp_all
qed

lemma sameEmail_cong:
  "toLowerCase (trim a) = toLowerCase (trim b) \<Longrightarrow> sameEmail a = sameEmail b"
  by (simp add: sameEmail_def fun_eq_iff)

lemma toLowerCase_Nil_iff: "toLowerCase s = [] \<longleftrightarrow> s = []"
  by (simp add: toLowerCase_def)

text \<open>
  Claim C5, amended. Take a profile store in which identifiers are unique and no two
  profiles have the same e-mail up to case. Save a profile, then save again with an e-mail
  that is the same up to case (\<open>A@x.com\<close>, then \<open>a@x.com\<close>, or the same input twice). If
  no profile matched at the first save, let the identifier \<open>user-\<close> followed by the clock
  reading not be in the store yet. Then the store has exactly one profile for that e-mail;
  it carries the fields of the second save and the identifier of the profile that was
  there first (the matching one, or else the one the first save made); the profiles of
  other e-mails are untouched; and when no profile matched, the first save appended a
  profile whose identifier is \<open>user-\<close> followed by the clock reading.
\<close>

theorem upsert_idempotent:
  assumes name: "trim (orderName st) \<noteq> []" and email: "trim (orderEmail st) \<noteq> []"
    and name2: "trim (orderName st2) \<noteq> []"
    and email2: "toLowerCase (trim (orderEmail st2)) = toLowerCase (trim (orderEmail st))"
    and store2: "users st2 = users (handleSaveProfile t1 st)"
    and ok: "profilesOk (users st)"
    and fresh: "find (sameEmail (orderEmail st)) (users st) = None \<longrightarrow>
                ''user-'' @ decimal t1 \<notin> user_id ` set (users st)"
  shows "filter (sameEmail (orderEmail st)) (users (handleSaveProfile t2 st2)) =
           [makeUser (case find (sameEmail (orderEmail st)) (users st) of
                        Some e \<Rightarrow> user_id e | None \<Rightarrow> ''user-'' @ decimal t1) st2] \<and>
         filter (\<lambda>u. \<not> sameEmail (orderEmail st) u) (users (handleSaveProfile t2 st2)) =
           filter (\<lambda>u. \<not> sameEmail (orderEmail st) u) (users st) \<and>
         profilesOk (users (handleSaveProfile t2 st2)) \<and>
         (find (sameEmail (orderEmail st)) (users st) = None \<longrightarrow>
            users (handleSaveProfile t1 st) = users st @ [makeUser (''user-'' @ decimal t1) st])"
proof -
  let ?P = "sameEmail (orderEmail st)"
  let ?i = "case find ?P (users st) of Some e \<Rightarrow> user_id e | None \<Rightarrow> ''user-'' @ decimal t1"
  note first = upsert_once [OF name email ok fresh]
  have P2: "sameEmail (orderEmail st2) = ?P" using email2 by (rule sameEmail_cong)
  have mail2: "trim (orderEmail st2) \<noteq> []"
    using email email2 by (metis toLowerCase_Nil_iff)
  have ok2: "profilesOk (users st2)" using first(1) store2 by simp
  have "makeUser ?i st \<in> set (filter ?P (users st2))"
    using first(2) store2 by simp
  then obtain x where x: "find ?P (users st2) = Some x"
    by (cases "find ?P (users st2)") (auto simp: find_None_iff)
  then have "x \<in> set (filter ?P (users st2))" by (auto simp: find_Some_iff)
  then have "x = makeUser ?i st" using first(2) store2 by simp
  then have idx: "user_id x = ?i" by simp
  have fresh2: "find (sameEmail (orderEmail st2)) (users st2) = None \<longrightarrow>
                ''user-'' @ decimal t2 \<notin> user_id ` set (users st2)"
    using x P2 by simp
  note second = upsert_once [OF name2 mail2 ok2 fresh2]
  from second(2) have "filter ?P (users (handleSaveProfile t2 st2)) = [makeUser ?i st2]"
    using x idx by (simp add: P2)
  moreover from second(3) have "filter (\<lambda>u. \<not> ?P u) (users (handleSaveProfile t2 st2)) =
      filter (\<lambda>u. \<not> ?P u) (users st)"
    using first(3) store2 by (simp add: P2)
  moreover have "find ?P (users st) = None \<longrightarrow>
      users (handleSaveProfile t1 st) = users st @ [makeUser (''user-'' @ decimal t1) st]"
    using handleSaveProfile_create [OF name email] by blast
  ultimately show ?thesis using second(1) by blast
qed

theorem upsert_idempotent_witness:
  "users (handleSaveProfile 1700000000500
            ((handleSaveProfile 1700000000000 (sampleState\<lparr>orderEmail := ''A@x.com''\<rparr>))
               \<lparr>orderEmail := ''a@x.com'', orderPhone := ''98200 00000''\<rparr>)) =
     [\<lparr>user_id = ''user-1700000000000'', user_name = ''Asha Rao'', user_email = ''a@x.com'',
       user_phone = Some ''98200 00000'', user_address = None, user_city = None,
       user_postalCode = None\<rparr>]"
proof -
  let ?st = "sampleState\<lparr>orderEmail := ''A@x.com''\<rparr>"
  let ?st2 = "(handleSaveProfile 1700000000000 ?st)\<lparr>orderEmail := ''a@x.com'', orderPhone := ''98200 00000''\<rparr>"
  have users0: "users ?st = []" by (simp add: sampleState_def initialState_def)
  have name: "trim (orderName ?st) \<noteq> []" and email: "trim (orderEmail ?st) \<noteq> []"
    by (simp_all add: sampleState_def initialState_def trim_def isSpace_def)
  have fields: "orderName ?st2 = '' Asha Rao ''" "orderAddress ?st2 = []" "orderCity ?st2 = []"
    "orderPostalCode ?st2 = []"
    by (simp_all add: handleSaveProfile_def Let_def sampleState_def initialState_def
        trim_def isSpace_def users0 split: option.split)
  have name2: "trim (orderName ?st2) \<noteq> []"
    by (simp add: fields trim_def isSpace_def)
  have email2: "toLowerCase (trim (orderEmail ?st2)) = toLowerCase (trim (orderEmail ?st))"
    by (simp add: trim_def isSpace_def toLowerCase_def toLowerChar_def)
  have store2: "users ?st2 = users (handleSaveProfile 1700000000000 ?st)" by simp
  have ok: "profilesOk (users ?st)" by (simp add: users0 profilesOk_def)
  have fresh: "find (sameEmail (orderEmail ?st)) (users ?st) = None \<longrightarrow>
      ''user-'' @ decimal 1700000000000 \<notin> user_id ` set (users ?st)"
    by (simp add: users0)
  note u = upsert_idempotent [OF name email name2 email2 store2 ok fresh, of 1700000000500]
  from u have one: "filter (sameEmail (orderEmail ?st)) (users (handleSaveProfile 1700000000500 ?st2)) =
      [makeUser (''user-'' @ decimal 1700000000000) ?st2]"
    by (simp add: users0)
  from u have "filter (\<lambda>u. \<not> sameEmail (orderEmail ?st) u) (users (handleSaveProfile 1700000000500 ?st2)) = []"
    by (simp add: users0)
  then have "\<forall>u \<in> set (users (handleSaveProfile 1700000000500 ?st2)). sameEmail (orderEmail ?st) u"
    by (simp add: filter_empty_conv)
  then have "filter (sameEmail (orderEmail ?st)) (users (handleSaveProfile 1700000000500 ?st2)) =
      users (handleSaveProfile 1700000000500 ?st2)"
    by (simp add: filter_id_conv)
  with one have "users (handleSaveProfile 1700000000500 ?st2) =
      [makeUser (''user-'' @ decimal 1700000000000) ?st2]"
    by simp
  then show ?thesis
    by (simp add: makeUser_def fields decimal_sample trim_def isSpace_def orUndefined_def)
qed

text \<open>
  As the specification words it (for every profile store), the statement fails when the
  clock reading repeats the one behind an identifier of the store: the new profile gets
  the identifier of Bina's, and the second save, which replaces by identifier, overwrites
  both. Two profiles for \<open>a@x.com\<close> are stored and Bina's is lost.
\<close>

theorem upsert_counterexample:
  "profilesOk [\<lparr>user_id = ''user-1700000000000'', user_name = ''Bina'', user_email = ''bina@y.com'',
                user_phone = None, user_address = None, user_city = None,
                user_postalCode = None\<rparr>] \<and>
   users (handleSaveProfile 1700000000500
            ((handleSaveProfile 1700000000000
                (sampleState
                   \<lparr>users := [\<lparr>user_id = ''user-1700000000000'', user_name = ''Bina'',
                                user_email = ''bina@y.com'', user_phone = None,
                                user_address = None, user_city = None,
                                user_postalCode = None\<rparr>],
                    orderEmail := ''A@x.com''\<rparr>))
               \<lparr>orderEmail := ''a@x.com''\<rparr>)) =
     [\<lparr>user_id = ''user-1700000000000'', user_name = ''Asha Rao'', user_email = ''a@x.com'',
       user_phone = None, user_address = None, user_city = None, user_postalCode = None\<rparr>,
      \<lparr>user_id = ''user-1700000000000'', user_name = ''Asha Rao'', user_email = ''a@x.com'',
       user_phone = None, user_address = None, user_city = None, user_postalCode = None\<rparr>]"
  by (simp add: handleSaveProfile_def Let_def sampleState_def initialState_def trim_def
      isSpace_def sameEmail_def toLowerCase_def toLowerChar_def makeUser_def orUndefined_def
      decimal_sample profilesOk_def)

subsection \<open>Adding a product\<close>

text \<open>The decimal rendering of a clock reading determines the reading.\<close>

lemma digitChar_inj: "a < 10 \<Longrightarrow> b < 10 \<Longrightarrow> digitChar a = digitChar b \<Longrightarrow> a = b"
proof -
  assume a: "a < 10" and b: "b < 10" and eq: "digitChar a = digitChar b"
  have "distinct ''0123456789''" by simp
  moreover have "a < length ''0123456789''" "b < length ''0123456789''" using a b by simp_all
  ultimately show "a = b" using eq unfolding digitChar_def by (simp only: nth_eq_iff_index_eq)
qed

lemma decimal_nonempty: "decimal n \<noteq> []"
  by (subst decimal.simps) simp

lemma decimal_last: "last (decimal n) = digitChar (n mod 10)"
  by (subst decimal.simps) simp

lemma decimal_butlast: "butlast (decimal n) = (if n < 10 then [] else decimal (n div 10))"
  by (subst decimal.simps) simp

lemma decimal_inj: "decimal a = decimal b \<Longrightarrow> a = b"
proof (induction a arbitrary: b rule: decimal.induct)
  case (1 a)
  from "1.prems" have l: "digitChar (a mod 10) = digitChar (b mod 10)"
    by (metis decimal_last)
  then have m: "a mod 10 = b mod 10" by (intro digitChar_inj) simp_all
  from "1.prems" have bl: "(if a < 10 then [] else decimal (a div 10)) =
      (if b < 10 then [] else decimal (b div 10))"
    by (metis decimal_butlast)
  show ?case
  proof (cases "a < 10")
    case True
    have "b < 10"
    proof (rule ccontr)
      assume "\<not> b < 10"
      with bl True have "decimal (b div 10) = []" by simp
      then show False by (simp add: decimal_nonempty)
    qed
    with True m show ?thesis by simp
  next
    case False
    have b: "\<not> b < 10"
    proof
      assume "b < 10"
      with bl False have "decimal (a div 10) = []" by simp
      then show False by (simp add: decimal_nonempty)
    qed
    with bl False have "decimal (a div 10) = decimal (b div 10)" by simp
    with False "1.IH" have "a div 10 = b div 10" by simp
    with m show ?thesis by (metis div_mult_mod_eq)
  qed
qed

lemma baseId_chai: "baseId ''Chai Mix'' = ''chai-mix''"
  by (simp add: baseId_def toLowerCase_def toLowerChar_def isSlugChar_def stripHyphens_def)

lemma trim_chai: "trim ''Chai Mix'' = ''Chai Mix''"
  by (simp add: trim_def isSpace_def)

lemma handleCreateSpice_chai:
  assumes "draft_name (newSpice st) = ''Chai Mix''"
    and "toNumber (draft_price (newSpice st)) = Finite 120"
  shows "\<exists>c. spices (handleCreateSpice toNumber ta tb st) = spices st @ [c] \<and>
     spice_id c = (if ''chai-mix'' \<in> spice_id ` set (spices st)
                   then ''chai-mix-'' @ decimal tb else ''chai-mix'') \<and>
     spice_name c = ''Chai Mix'' \<and> spice_price c = 120"
  using assms
  by (simp add: handleCreateSpice_def Let_def baseId_chai trim_chai list_ex_iff image_iff
      mathRound_120 del: mathRound.simps) metis

text \<open>
  Claim C6, amended. For every catalog, adding a product named \<open>Chai Mix\<close> at 120 and
  then a second one with the same name appends two products and leaves every product
  that was there unchanged and in place. The first gets the slug \<open>chai-mix\<close>, or the slug
  with the clock reading as suffix when the slug is taken; the second always gets the
  slug with the clock reading as suffix. The two identifiers differ exactly when the slug
  was free before the first call or the two calls read different clock values.
\<close>

theorem create_twice:
  assumes d1: "draft_name (newSpice st) = ''Chai Mix''"
    and p1: "toNumber (draft_price (newSpice st)) = Finite 120"
    and c2: "spices st2 = spices (handleCreateSpice toNumber ta tb st)"
    and d2: "draft_name (newSpice st2) = ''Chai Mix''"
    and p2: "toNumber (draft_price (newSpice st2)) = Finite 120"
  shows "\<exists>a b. spices (handleCreateSpice toNumber ta' tb' st2) = spices st @ [a, b] \<and>
     spice_id a = (if ''chai-mix'' \<in> spice_id ` set (spices st)
                   then ''chai-mix-'' @ decimal tb else ''chai-mix'') \<and>
     spice_id b = ''chai-mix-'' @ decimal tb' \<and>
     spice_name a = ''Chai Mix'' \<and> spice_price a = 120 \<and>
     spice_name b = ''Chai Mix'' \<and> spice_price b = 120 \<and>
     (spice_id a \<noteq> spice_id b \<longleftrightarrow>
        ''chai-mix'' \<notin> spice_id ` set (spices st) \<or> tb \<noteq> tb')"
proof -
  from handleCreateSpice_chai [of st toNumber ta tb, OF d1 p1] obtain a where
    a: "spices (handleCreateSpice toNumber ta tb st) = spices st @ [a]"
       "spice_id a = (if ''chai-mix'' \<in> spice_id ` set (spices st)
                      then ''chai-mix-'' @ decimal tb else ''chai-mix'')"
       "spice_name a = ''Chai Mix''" "spice_price a = 120"
    by blast
  from handleCreateSpice_chai [of st2 toNumber ta' tb', OF d2 p2] obtain b where
    b: "spices (handleCreateSpice toNumber ta' tb' st2) = spices st2 @ [b]"
       "spice_id b = (if ''chai-mix'' \<in> spice_id ` set (spices st2)
                      then ''chai-mix-'' @ decimal tb' else ''chai-mix'')"
       "spice_name b = ''Chai Mix''" "spice_price b = 120"
    by blast
  have "''chai-mix'' \<in> spice_id ` set (spices st2)"
    using a(1,2) c2 by (auto split: if_splits)
  with b(2) have idb: "spice_id b = ''chai-mix-'' @ decimal tb'" by simp
  have differ: "spice_id a \<noteq> spice_id b \<longleftrightarrow>
      ''chai-mix'' \<notin> spice_id ` set (spices st) \<or> tb \<noteq> tb'"
    using a(2) idb decimal_inj [of tb tb'] by auto
  have "spices (handleCreateSpice toNumber ta' tb' st2) = spices st @ [a, b]"
    using a(1) b(1) c2 by simp
  with a idb b differ show ?thesis by blast
qed

theorem create_twice_witness:
  "map spice_id (spices (handleCreateSpice sampleNumber 1700000000000 1700000000000
      ((handleCreateSpice sampleNumber 1700000000000 1700000000000
          (sampleState\<lparr>newSpice := chaiDraft\<rparr>))\<lparr>newSpice := chaiDraft\<rparr>))) =
   [''p1'', ''p2'', ''chai-mix'', ''chai-mix-1700000000000'']"
proof -
  let ?st = "sampleState\<lparr>newSpice := chaiDraft\<rparr>"
  let ?st2 = "(handleCreateSpice sampleNumber 1700000000000 1700000000000 ?st)\<lparr>newSpice := chaiDraft\<rparr>"
  have d: "draft_name (newSpice ?st) = ''Chai Mix''" "draft_name (newSpice ?st2) = ''Chai Mix''"
    by (simp_all add: chaiDraft_def)
  have p: "sampleNumber (draft_price (newSpice ?st)) = Finite 120"
    "sampleNumber (draft_price (newSpice ?st2)) = Finite 120"
    by (simp_all add: chaiDraft_def sampleNumber_def)
  have c: "spices ?st2 = spices (handleCreateSpice sampleNumber 1700000000000 1700000000000 ?st)"
    by simp
  have ids: "map spice_id (spices ?st) = [''p1'', ''p2'']"
    by (simp add: sampleState_def initialState_def sampleSpice_def)
  have "spice_id ` set (spices ?st) = set (map spice_id (spices ?st))" by simp
  then have new: "''chai-mix'' \<notin> spice_id ` set (spices ?st)"
    unfolding ids by simp
  from create_twice [of ?st sampleNumber ?st2 1700000000000 1700000000000
      1700000000000 1700000000000, OF d(1) p(1) c d(2) p(2)]
  obtain a b where
    ab: "spices (handleCreateSpice sampleNumber 1700000000000 1700000000000 ?st2) = spices ?st @ [a, b]"
    and ida: "spice_id a = (if ''chai-mix'' \<in> spice_id ` set (spices ?st)
                   then ''chai-mix-'' @ decimal 1700000000000 else ''chai-mix'')"
    and idb: "spice_id b = ''chai-mix-'' @ decimal 1700000000000"
    by blast
  from ida new have ida': "spice_id a = ''chai-mix''" by simp
  have "map spice_id (spices (handleCreateSpice sampleNumber 1700000000000 1700000000000 ?st2)) =
      map spice_id (spices ?st) @ [spice_id a, spice_id b]"
    unfolding ab by simp
  then show ?thesis unfolding ids ida' idb decimal_sample by simp
qed

text \<open>
  As the specification words it (two distinct identifiers for every catalog), the
  statement fails when the slug is taken and both calls read the same clock value: both
  new products get the same identifier.
\<close>

theorem create_twice_counterexample:
  "map spice_id (spices (handleCreateSpice sampleNumber 1700000000000 1700000000000
      ((handleCreateSpice sampleNumber 1700000000000 1700000000000
          (sampleState\<lparr>spices := [sampleSpice ''chai-mix'' ''Chai Mix'' 120],
                       newSpice := chaiDraft\<rparr>))\<lparr>newSpice := chaiDraft\<rparr>))) =
   [''chai-mix'', ''chai-mix-1700000000000'', ''chai-mix-1700000000000'']"
  by (simp add: handleCreateSpice_def Let_def chaiDraft_def blankNewSpice_def sampleNumber_def
      sampleState_def initialState_def sampleSpice_def baseId_chai trim_def isSpace_def
      mathRound_120 decimal_sample del: mathRound.simps)

subsection \<open>Saving and loading\<close>

text \<open>The four keys are different, so no store is written over another one.\<close>

lemma keys_differ:
  "keyAdmin \<noteq> keySpices" "keyAdmin \<noteq> keyUsers" "keyAdmin \<noteq> keyOrders"
  "keySpices \<noteq> keyUsers" "keySpices \<noteq> keyOrders" "keyUsers \<noteq> keyOrders"
  by (simp_all add: keyAdmin_def keySpices_def keyUsers_def keyOrders_def)

lemma persistAll_slots:
  assumes "initialized st"
  shows "persistAll json True True st sto keyAdmin = Some (stringifyAdmin json (adminConfig st))"
    and "persistAll json True True st sto keySpices = Some (stringifySpices json (spices st))"
    and "persistAll json True True st sto keyUsers = Some (stringifyUsers json (users st))"
    and "persistAll json True True st sto keyOrders = Some (stringifyOrders json (orders st))"
  using assms keys_differ
  by (simp_all add: persistAll_def persistAdmin_def persistSpices_def persistUsers_def
      persistOrders_def)

lemma mergeAdmin_patchOf:
  assumes "supportPhone c \<noteq> None" and "upiId c \<noteq> None" and "admin_city c \<noteq> None"
    and "minimumOrderNote c \<noteq> None"
  shows "mergeAdmin d (patchOf c) = c"
  using assms by (cases c) (auto simp: mergeAdmin_def patchOf_def)

text \<open>The state that a session loads from a storage into which all four stores were saved.\<close>

lemma loadEffect_after_save:
  assumes init: "initialized st" and rt: "jsonRoundTrips json st"
  shows "loadEffect json True (persistAll json True True st sto) st0 =
           (if spices st = []
            then st0\<lparr>adminConfig := mergeAdmin defaultAdminConfig (patchOf (adminConfig st)),
                     users := users st, orders := orders st, initialized := True\<rparr>
            else st0\<lparr>adminConfig := mergeAdmin defaultAdminConfig (patchOf (adminConfig st)),
                     spices := spices st, users := users st, orders := orders st,
                     initialized := True\<rparr>)"
proof -
  let ?sto = "persistAll json True True st sto"
  note slots = persistAll_slots [OF init, of json sto]
  from rt have texts: "stringifyAdmin json (adminConfig st) \<noteq> []"
      "stringifySpices json (spices st) \<noteq> []" "stringifyUsers json (users st) \<noteq> []"
      "stringifyOrders json (orders st) \<noteq> []"
    and reads: "parseAdmin json (stringifyAdmin json (adminConfig st)) = Parsed (patchOf (adminConfig st))"
      "parseSpices json (stringifySpices json (spices st)) = Parsed (spices st)"
      "parseUsers json (stringifyUsers json (users st)) = Parsed (users st)"
      "parseOrders json (stringifyOrders json (orders st)) = Parsed (orders st)"
    by (simp_all add: jsonRoundTrips_def)
  have a: "loadAdmin json ?sto s =
      Some (s\<lparr>adminConfig := mergeAdmin defaultAdminConfig (patchOf (adminConfig st))\<rparr>)" for s
    by (simp add: loadAdmin_def slots texts reads)
  have b: "loadSpices json ?sto s = Some (if spices st = [] then s else s\<lparr>spices := spices st\<rparr>)"
    for s
    by (simp add: loadSpices_def slots texts reads)
  have c: "loadUsers json ?sto s = Some (s\<lparr>users := users st\<rparr>)" for s
    by (simp add: loadUsers_def slots texts reads)
  have d: "loadOrders json ?sto s = Some (s\<lparr>orders := orders st\<rparr>)" for s
    by (simp add: loadOrders_def slots texts reads)
  show ?thesis by (simp add: loadEffect_def a b c d)
qed

text \<open>
  Claim C7, amended. Let the four stores of an initialised session be saved in a browser
  whose storage takes the texts, and let \<open>JSON.parse\<close> read back what \<open>JSON.stringify\<close>
  wrote. A session that loads afterwards has the same profiles and the same order
  history, element for element and in the same order, and the same catalog in the same
  order when the saved catalog is not empty; an empty catalog is not loaded, the session
  keeps the catalog it started with (the defaults). The settings come back with every
  missing optional field filled from the defaults, so they are the saved ones when no
  optional field is missing.
\<close>

theorem save_then_load:
  assumes "initialized st" and "win" and "writable" and "jsonRoundTrips json st"
  shows "users (loadEffect json win (persistAll json win writable st sto) st0) = users st \<and>
         orders (loadEffect json win (persistAll json win writable st sto) st0) = orders st \<and>
         spices (loadEffect json win (persistAll json win writable st sto) st0) =
           (if spices st = [] then spices st0 else spices st) \<and>
         adminConfig (loadEffect json win (persistAll json win writable st sto) st0) =
           mergeAdmin defaultAdminConfig (patchOf (adminConfig st)) \<and>
         (supportPhone (adminConfig st) \<noteq> None \<and> upiId (adminConfig st) \<noteq> None \<and>
          admin_city (adminConfig st) \<noteq> None \<and> minimumOrderNote (adminConfig st) \<noteq> None \<longrightarrow>
            adminConfig (loadEffect json win (persistAll json win writable st sto) st0) =
              adminConfig st)"
  using assms(2,3) by (simp add: loadEffect_after_save [OF assms(1,4)] mergeAdmin_patchOf)

lemma sample_roundtrip: "jsonRoundTrips sampleJson sampleState"
  by (simp add: jsonRoundTrips_def sampleJson_def sampleState_def initialState_def)

theorem save_then_load_witness:
  "initialized sampleState \<and> jsonRoundTrips sampleJson sampleState \<and>
   spices (loadEffect sampleJson True (persistAll sampleJson True True sampleState Map.empty)
             initialState) = spices sampleState \<and>
   adminConfig (loadEffect sampleJson True (persistAll sampleJson True True sampleState Map.empty)
             initialState) = adminConfig sampleState"
proof -
  have i: "initialized sampleState" by (simp add: sampleState_def)
  have ne: "spices sampleState \<noteq> []" by (simp add: sampleState_def)
  have all: "supportPhone (adminConfig sampleState) \<noteq> None \<and> upiId (adminConfig sampleState) \<noteq> None \<and>
      admin_city (adminConfig sampleState) \<noteq> None \<and> minimumOrderNote (adminConfig sampleState) \<noteq> None"
    by (simp add: sampleState_def initialState_def defaultAdminConfig_def)
  note t = save_then_load [OF i TrueI TrueI sample_roundtrip, of Map.empty initialState]
  from t have "spices (loadEffect sampleJson True
        (persistAll sampleJson True True sampleState Map.empty) initialState) =
      (if spices sampleState = [] then spices initialState else spices sampleState)"
    by blast
  with ne have s: "spices (loadEffect sampleJson True
        (persistAll sampleJson True True sampleState Map.empty) initialState) = spices sampleState"
    by simp
  from t all have a: "adminConfig (loadEffect sampleJson True
        (persistAll sampleJson True True sampleState Map.empty) initialState) =
      adminConfig sampleState"
    by blast
  from i sample_roundtrip s a show ?thesis by blast
qed

text \<open>
  As the specification words it (for every state of each store), the statement fails for
  the empty catalog: it is saved as an empty array, and the load brings up the four
  default products.
\<close>

theorem empty_catalog_counterexample:
  "initialized (sampleState\<lparr>spices := []\<rparr>) \<and>
   jsonRoundTrips sampleJson (sampleState\<lparr>spices := []\<rparr>) \<and>
   spices (loadEffect sampleJson True
             (persistAll sampleJson True True (sampleState\<lparr>spices := []\<rparr>) Map.empty)
             initialState) = defaultSpices \<and>
   length defaultSpices = 4"
  by (simp add: jsonRoundTrips_def sampleJson_def sampleState_def initialState_def
      loadEffect_def loadAdmin_def loadSpices_def loadUsers_def loadOrders_def
      persistAll_def persistAdmin_def persistSpices_def persistUsers_def persistOrders_def
      keyAdmin_def keySpices_def keyUsers_def keyOrders_def defaultSpices_def)

end
